theory Spec2Isabelle
  imports Main
begin

section \<open>Exceptions, process outcomes and the outside world\<close>

text \<open>
  The script \<^verbatim>\<open>support/bin/hiosctl.py\<close> is glue code around the boto3 SDK, the process
  environment and the local file system. The SDK is not part of the repository, so every
  SDK call is a field of the record \<open>world\<close>: what the call answers is given by the
  world, and what the script does with the answer is the code below.

  An exception is a value. \<open>ClientError code text\<close> is botocore's \<open>ClientError\<close> with
  \<open>e.response['Error']['Code'] = code\<close> and \<open>str(e) = text\<close>; the other botocore and
  builtin exceptions the script names carry their text; \<open>OtherException\<close> is any other
  subclass of \<open>Exception\<close>. None of them is a subclass of another.
\<close>

datatype exn =
    ClientError string string
  | NoCredentialsError string
  | PartialCredentialsError string
  | FileNotFoundError string
  | OtherException string

fun str :: "exn \<Rightarrow> string" where
  "str (ClientError code text) = text"
| "str (NoCredentialsError text) = text"
| "str (PartialCredentialsError text) = text"
| "str (FileNotFoundError text) = text"
| "str (OtherException text) = text"

text \<open>
  How a call of one of the script's functions ends: it returns, an exception leaves it,
  or \<open>sys.exit(n)\<close> was called (\<open>SystemExit\<close> is no \<open>Exception\<close>, so no handler of
  the script catches it). The interpreter ends with status 0 after a normal return, with
  status 1 after an uncaught exception and with status \<open>n\<close> after \<open>sys.exit(n)\<close>.
\<close>

datatype outcome = Returned | Raised exn | Exited nat

fun exit_code :: "outcome \<Rightarrow> nat" where
  "exit_code Returned = 0"
| "exit_code (Raised e) = 1"
| "exit_code (Exited n) = n"

text \<open>The keyword arguments of \<open>start_fhir_import_job\<close>, as the script passes them.\<close>

record import_job_request =
  DatastoreId :: string
  InputS3Uri :: string
  JobName :: string
  DataAccessRoleArn :: string
  OutputS3Uri :: string
  KmsKeyId :: string

text \<open>The remote calls, logged in the order in which they are made.\<close>

datatype call =
    HeadObject string string
  | UploadFile string string string string
  | ListObjectsV2 string
  | StartFHIRImportJob import_job_request
  | HeadBucket string
  | DescribeFHIRDatastore string

text \<open>A directory: the names of its non-directory entries and its subdirectories.\<close>

datatype dir = Dir "string list" "(string \<times> dir) list"

text \<open>
  The world. \<open>environ\<close> is \<open>os.environ\<close>, \<open>getcwd\<close> the working directory,
  \<open>directories\<close> tells which paths are directories (and what they hold).
  \<open>new_session\<close> and \<open>new_client\<close> are the exceptions that \<open>boto3.Session(...)\<close> and
  \<open>session.client(name)\<close> raise, if any. \<open>s3_objects\<close> are the (bucket, key) pairs
  stored in S3; \<open>head_object_fault\<close> and \<open>upload_file_fault\<close> are the faults
  (access denied, no credentials, vanished local file, no network) that make these two
  calls fail. The remaining calls only answer. \<open>calls\<close> and \<open>stdout\<close> are
  the log of remote calls and the printed lines.
\<close>

record world =
  environ :: "string \<Rightarrow> string option"
  getcwd :: string
  directories :: "string \<Rightarrow> dir option"
  new_session :: "exn option"
  new_client :: "string \<Rightarrow> exn option"
  s3_objects :: "(string \<times> string) list"
  head_object_fault :: "string \<Rightarrow> string \<Rightarrow> exn option"
  upload_file_fault :: "string \<Rightarrow> string \<Rightarrow> string \<Rightarrow> exn option"
  list_objects_v2 :: "string \<Rightarrow> exn + string list option"
  start_fhir_import_job :: "import_job_request \<Rightarrow> exn + string"
  head_bucket :: "string \<Rightarrow> exn option"
  describe_fhir_datastore :: "string \<Rightarrow> exn option"
  calls :: "call list"
  stdout :: "string list"

definition print_line :: "string \<Rightarrow> world \<Rightarrow> world" where
  "print_line line w = w\<lparr>stdout := stdout w @ [line]\<rparr>"

definition called :: "call \<Rightarrow> world \<Rightarrow> world" where
  "called c w = w\<lparr>calls := calls w @ [c]\<rparr>"

text \<open>Python's \<open>sep.join(xs)\<close>.\<close>

fun str_join :: "string \<Rightarrow> string list \<Rightarrow> string" where
  "str_join sep [] = []"
| "str_join sep [x] = x"
| "str_join sep (x # y # ys) = x @ sep @ str_join sep (y # ys)"

text \<open>
  \<open>boto3.Session(...)\<close> followed by \<open>session.client(name)\<close> for each name: the first
  exception raised, if any. All three functions of the script do this outside any
  \<open>try\<close>.
\<close>

fun first_client_fault :: "world \<Rightarrow> string list \<Rightarrow> exn option" where
  "first_client_fault w [] = None"
| "first_client_fault w (name # names) =
     (case new_client w name of Some e \<Rightarrow> Some e | None \<Rightarrow> first_client_fault w names)"

definition boto3_clients :: "world \<Rightarrow> string list \<Rightarrow> exn option" where
  "boto3_clients w names =
     (case new_session w of Some e \<Rightarrow> Some e | None \<Rightarrow> first_client_fault w names)"

definition apostrophe :: string where
  "apostrophe = [CHR 0x27]"

section \<open>doctor\<close>

definition required_env_vars :: "string list" where
  "required_env_vars = [''AWS_ACCESS_KEY_ID'', ''AWS_SECRET_ACCESS_KEY'', ''AWS_REGION'']"

definition missing_env_vars :: "world \<Rightarrow> string list" where
  "missing_env_vars w = filter (\<lambda>var. environ w var = None) required_env_vars"

definition doctor :: "world \<Rightarrow> string \<Rightarrow> string \<Rightarrow> outcome \<times> world" where
  "doctor w bucket_name datastore_id =
     (if missing_env_vars w \<noteq> [] then
        (Exited 1,
         print_line (''Missing required environment variables: ''
                     @ str_join '', '' (missing_env_vars w)) w)
      else
        let w1 = print_line ''All required environment variables are set.'' w in
        case boto3_clients w1 [''s3'', ''healthlake''] of
          Some e \<Rightarrow> (Raised e, w1)
        | None \<Rightarrow>
            let w2 = called (HeadBucket bucket_name) w1 in
            (case head_bucket w2 bucket_name of
               Some (ClientError code text) \<Rightarrow>
                 (Exited 1,
                  print_line (''Could not access S3 bucket '' @ apostrophe @ bucket_name
                              @ apostrophe @ '': '' @ text) w2)
             | Some e \<Rightarrow> (Raised e, w2)
             | None \<Rightarrow>
                 let w3 = print_line (''S3 bucket '' @ apostrophe @ bucket_name @ apostrophe
                                      @ '' exists and is accessible.'') w2;
                     w4 = called (DescribeFHIRDatastore datastore_id) w3 in
                 (case describe_fhir_datastore w4 datastore_id of
                    Some (ClientError code text) \<Rightarrow>
                      (Exited 1,
                       print_line (''Could not access HealthLake Data Store ID '' @ apostrophe
                                   @ datastore_id @ apostrophe @ '': '' @ text) w4)
                  | Some e \<Rightarrow> (Raised e, w4)
                  | None \<Rightarrow>
                      (Returned,
                       print_line (''HealthLake Data Store ID '' @ apostrophe @ datastore_id
                                   @ apostrophe @ '' is valid and accessible.'') w4))))"

section \<open>Strings and POSIX paths\<close>

text \<open>
  The string methods and the functions of \<open>os.path\<close> (the POSIX flavour, \<open>posixpath\<close>)
  that \<open>store_s3\<close> calls, following the Python library. One list element is one
  character of the Python string.
\<close>

definition startswith :: "string \<Rightarrow> string \<Rightarrow> bool" where
  "startswith s prefix = (take (length prefix) s = prefix)"

definition endswith :: "string \<Rightarrow> string \<Rightarrow> bool" where
  "endswith s suffix =
     (length suffix \<le> length s \<and> drop (length s - length suffix) s = suffix)"

definition sep :: char where
  "sep = CHR ''/''"

definition backslash :: char where
  "backslash = CHR 0x5C"

text \<open>\<open>s.replace("\\", "/")\<close>: every backslash becomes a slash.\<close>

definition replace_backslash :: "string \<Rightarrow> string" where
  "replace_backslash s = map (\<lambda>c. if c = backslash then sep else c) s"

text \<open>\<open>s.split('/')\<close>: the pieces between the slashes, at least one piece.\<close>

fun split_sep :: "string \<Rightarrow> string list" where
  "split_sep [] = [[]]"
| "split_sep (c # cs) =
     (if c = sep then [] # split_sep cs
      else (case split_sep cs of [] \<Rightarrow> [[c]] | x # xs \<Rightarrow> (c # x) # xs))"

text \<open>\<open>os.path.join(a, b)\<close>.\<close>

definition os_path_join :: "string \<Rightarrow> string \<Rightarrow> string" where
  "os_path_join a b =
     (if startswith b [sep] then b
      else if a = [] \<or> endswith a [sep] then a @ b
      else a @ [sep] @ b)"

text \<open>
  \<open>os.path.normpath\<close>: the loop body over the components, with \<open>new_comps\<close> as the list
  it appends to and pops from, and the function itself.
\<close>

definition normpath_step :: "bool \<Rightarrow> string list \<Rightarrow> string \<Rightarrow> string list" where
  "normpath_step has_initial_slashes new_comps component =
     (if component = [] \<or> component = ''.'' then new_comps
      else if component \<noteq> ''..'' \<or> (\<not> has_initial_slashes \<and> new_comps = [])
              \<or> (new_comps \<noteq> [] \<and> last new_comps = ''..'')
           then new_comps @ [component]
      else if new_comps \<noteq> [] then butlast new_comps
      else new_comps)"

definition initial_slashes :: "string \<Rightarrow> nat" where
  "initial_slashes path =
     (if startswith path [sep] then
        (if startswith path [sep, sep] \<and> \<not> startswith path [sep, sep, sep] then 2 else 1)
      else 0)"

definition normpath :: "string \<Rightarrow> string" where
  "normpath path =
     (if path = [] then ''.''
      else
        let comps = foldl (normpath_step (initial_slashes path \<noteq> 0)) [] (split_sep path);
            path' = replicate (initial_slashes path) sep @ str_join [sep] comps
        in if path' = [] then ''.'' else path')"

text \<open>\<open>os.path.abspath\<close>, with \<open>os.getcwd()\<close> read from the world.\<close>

definition abspath :: "world \<Rightarrow> string \<Rightarrow> string" where
  "abspath w path =
     normpath (if \<not> startswith path [sep] then os_path_join (getcwd w) path else path)"

text \<open>
  \<open>os.path.commonprefix\<close> of two lists: the library compares the smaller of the two
  with the larger, element by element, which gives their longest common prefix.
\<close>

fun commonprefix :: "'a list \<Rightarrow> 'a list \<Rightarrow> 'a list" where
  "commonprefix (x # xs) (y # ys) = (if x = y then x # commonprefix xs ys else [])"
| "commonprefix xs ys = []"

text \<open>\<open>os.path.relpath(path, start)\<close>; an empty \<open>path\<close> raises \<open>ValueError\<close>.\<close>

definition path_list :: "world \<Rightarrow> string \<Rightarrow> string list" where
  "path_list w path =
     (let tail = dropWhile (\<lambda>c. c = sep) (abspath w path)
      in if tail = [] then [] else split_sep tail)"

definition os_path_relpath :: "world \<Rightarrow> string \<Rightarrow> string \<Rightarrow> exn + string" where
  "os_path_relpath w path start =
     (if path = [] then Inl (OtherException ''no path specified'')
      else
        let start_list = path_list w start;
            path_list = path_list w path;
            i = length (commonprefix start_list path_list);
            rel_list = replicate (length start_list - i) ''..'' @ drop i path_list
        in if rel_list = [] then Inr ''.'' else Inr (str_join [sep] rel_list))"

text \<open>
  \<open>os.walk(top)\<close>, top-down: the triple of a directory, then the walks of its
  subdirectories, each under \<open>os.path.join(top, name)\<close>. A path that is no directory
  yields nothing.
\<close>

fun os_walk :: "string \<Rightarrow> dir \<Rightarrow> (string \<times> string list \<times> string list) list"
  and os_walk_subdirs :: "string \<Rightarrow> (string \<times> dir) list \<Rightarrow> (string \<times> string list \<times> string list) list"
where
  "os_walk top_dir (Dir nondirs subdirs) =
     (top_dir, map fst subdirs, nondirs) # os_walk_subdirs top_dir subdirs"
| "os_walk_subdirs top_dir [] = []"
| "os_walk_subdirs top_dir ((name, d) # subdirs) =
     os_walk (os_path_join top_dir name) d @ os_walk_subdirs top_dir subdirs"

definition isdir :: "world \<Rightarrow> string \<Rightarrow> bool" where
  "isdir w path = (directories w path \<noteq> None)"

section \<open>store-s3\<close>

text \<open>
  The two S3 calls of the upload. \<open>head_object\<close> fails with the injected fault if there
  is one, with the error code 404 if the object is not stored, and returns otherwise;
  \<open>upload_file\<close> fails with the injected fault or stores the object.
\<close>

definition head_object :: "world \<Rightarrow> string \<Rightarrow> string \<Rightarrow> exn option" where
  "head_object w bucket key =
     (case head_object_fault w bucket key of
        Some e \<Rightarrow> Some e
      | None \<Rightarrow>
          if (bucket, key) \<in> set (s3_objects w) then None
          else Some (ClientError ''404''
                 ''An error occurred (404) when calling the HeadObject operation: Not Found''))"

definition upload_file :: "world \<Rightarrow> string \<Rightarrow> string \<Rightarrow> string \<Rightarrow> exn + world" where
  "upload_file w file_path bucket key =
     (case upload_file_fault w file_path bucket key of
        Some e \<Rightarrow> Inl e
      | None \<Rightarrow> Inr (w\<lparr>s3_objects := (bucket, key) # s3_objects w\<rparr>))"

definition upload_to_s3 :: "world \<Rightarrow> string \<Rightarrow> string \<Rightarrow> string \<Rightarrow> outcome \<times> world" where
  "upload_to_s3 w file_path bucket_name object_name =
     (let w1 = called (HeadObject bucket_name object_name) w in
      case head_object w1 bucket_name object_name of
        None \<Rightarrow>
          (Returned,
           print_line (''File already exists in s3://'' @ bucket_name @ ''/'' @ object_name
                       @ '', skipping upload.'') w1)
      | Some (ClientError code text) \<Rightarrow>
          if code = ''404'' then
            let w2 = called (UploadFile file_path bucket_name object_name
                               ''application/json'') w1 in
            (case upload_file w2 file_path bucket_name object_name of
               Inr w3 \<Rightarrow>
                 (Returned,
                  print_line (''File uploaded successfully to s3://'' @ bucket_name @ ''/''
                              @ object_name) w3)
             | Inl (FileNotFoundError t) \<Rightarrow>
                 (Returned, print_line (''The file '' @ file_path @ '' was not found.'') w2)
             | Inl (NoCredentialsError t) \<Rightarrow>
                 (Returned, print_line ''Credentials not available.'' w2)
             | Inl (PartialCredentialsError t) \<Rightarrow>
                 (Returned, print_line ''Incomplete credentials provided.'' w2)
             | Inl e \<Rightarrow>
                 (Returned,
                  print_line (''An error occurred while uploading '' @ file_path @ '': ''
                              @ str e) w2))
          else (Returned, print_line (''An error occurred: '' @ text) w1)
      | Some e \<Rightarrow> (Raised e, w1))"

text \<open>
  The loops of \<open>store_s3\<close>: \<open>store_files\<close> is the inner loop over the file names of one
  directory, \<open>store_walk\<close> the outer loop over the triples of \<open>os.walk\<close>. An exception
  that leaves \<open>upload_to_s3\<close> or \<open>os.path.relpath\<close> leaves both loops.
\<close>

fun store_files :: "world \<Rightarrow> string \<Rightarrow> string \<Rightarrow> string \<Rightarrow> string list \<Rightarrow> outcome \<times> world" where
  "store_files w bucket_name synthea_fhir_bundles root [] = (Returned, w)"
| "store_files w bucket_name synthea_fhir_bundles root (filename # files) =
     (if endswith filename ''.json'' then
        let file_path = os_path_join root filename in
        case os_path_relpath w file_path synthea_fhir_bundles of
          Inl e \<Rightarrow> (Raised e, w)
        | Inr rel \<Rightarrow>
            let object_name = replace_backslash rel in
            (case upload_to_s3 w file_path bucket_name object_name of
               (Returned, w') \<Rightarrow> store_files w' bucket_name synthea_fhir_bundles root files
             | (out, w') \<Rightarrow> (out, w'))
      else store_files w bucket_name synthea_fhir_bundles root files)"

fun store_walk :: "world \<Rightarrow> string \<Rightarrow> string \<Rightarrow> (string \<times> string list \<times> string list) list
    \<Rightarrow> outcome \<times> world" where
  "store_walk w bucket_name synthea_fhir_bundles [] = (Returned, w)"
| "store_walk w bucket_name synthea_fhir_bundles ((root, dirs, files) # rest) =
     (case store_files w bucket_name synthea_fhir_bundles root files of
        (Returned, w') \<Rightarrow> store_walk w' bucket_name synthea_fhir_bundles rest
      | (out, w') \<Rightarrow> (out, w'))"

definition store_s3 :: "world \<Rightarrow> string \<Rightarrow> string \<Rightarrow> outcome \<times> world" where
  "store_s3 w bucket_name synthea_fhir_bundles =
     (case boto3_clients w [''s3''] of
        Some e \<Rightarrow> (Raised e, w)
      | None \<Rightarrow>
          store_walk w bucket_name synthea_fhir_bundles
            (case directories w synthea_fhir_bundles of
               None \<Rightarrow> []
             | Some d \<Rightarrow> os_walk synthea_fhir_bundles d))"

section \<open>ingest-healthlake\<close>

definition job_name :: "string \<Rightarrow> string" where
  "job_name object_name = ''Ingest-'' @ take 55 object_name"

definition s3_uri :: "string \<Rightarrow> string \<Rightarrow> string" where
  "s3_uri bucket_name object_name = ''s3://'' @ bucket_name @ ''/'' @ object_name"

definition import_request :: "string \<Rightarrow> string \<Rightarrow> string \<Rightarrow> string \<Rightarrow> import_job_request" where
  "import_request bucket_name datastore_id data_access_role_arn object_name =
     \<lparr>DatastoreId = datastore_id,
      InputS3Uri = s3_uri bucket_name object_name,
      JobName = job_name object_name,
      DataAccessRoleArn = data_access_role_arn,
      OutputS3Uri = ''s3://'' @ bucket_name @ ''/healthlake-start_fhir_import_job-output/'',
      KmsKeyId = []\<rparr>"

text \<open>
  The loop over \<open>response['Contents']\<close> (the keys of the listed objects). A
  \<open>ClientError\<close> of one submission is printed and the loop goes on; any other exception
  leaves the loop, for the handlers of the enclosing \<open>try\<close>.
\<close>

fun ingest_contents :: "world \<Rightarrow> string \<Rightarrow> string \<Rightarrow> string \<Rightarrow> string list \<Rightarrow> exn option \<times> world" where
  "ingest_contents w bucket_name datastore_id data_access_role_arn [] = (None, w)"
| "ingest_contents w bucket_name datastore_id data_access_role_arn (object_name # contents) =
     (let uri = s3_uri bucket_name object_name;
          w1 = print_line (''Ingesting '' @ uri @ '' into AWS HealthLake...'') w;
          request = import_request bucket_name datastore_id data_access_role_arn object_name;
          w2 = called (StartFHIRImportJob request) w1
      in case start_fhir_import_job w2 request of
           Inr job_id \<Rightarrow>
             ingest_contents
               (print_line (''Ingestion started for '' @ uri @ ''. Job ID: '' @ job_id) w2)
               bucket_name datastore_id data_access_role_arn contents
         | Inl (ClientError code text) \<Rightarrow>
             ingest_contents
               (print_line (''Failed to ingest '' @ uri @ '': '' @ text) w2)
               bucket_name datastore_id data_access_role_arn contents
         | Inl e \<Rightarrow> (Some e, w2))"

text \<open>
  The body of the \<open>try\<close> of \<open>ingest_healthlake\<close>: the listing, then the loop or the
  message that there is nothing. The result is the exception that left the body, if
  any.
\<close>

definition ingest_try :: "world \<Rightarrow> string \<Rightarrow> string \<Rightarrow> string \<Rightarrow> exn option \<times> world" where
  "ingest_try w bucket_name datastore_id data_access_role_arn =
     (let w1 = called (ListObjectsV2 bucket_name) w in
      case list_objects_v2 w1 bucket_name of
        Inl e \<Rightarrow> (Some e, w1)
      | Inr None \<Rightarrow> (None, print_line ''No objects found in the S3 bucket.'' w1)
      | Inr (Some contents) \<Rightarrow>
          ingest_contents w1 bucket_name datastore_id data_access_role_arn contents)"

definition ingest_healthlake :: "world \<Rightarrow> string \<Rightarrow> string \<Rightarrow> string \<Rightarrow> outcome \<times> world" where
  "ingest_healthlake w bucket_name datastore_id data_access_role_arn =
     (case boto3_clients w [''s3'', ''healthlake''] of
        Some e \<Rightarrow> (Raised e, w)
      | None \<Rightarrow>
          (case ingest_try w bucket_name datastore_id data_access_role_arn of
             (None, w2) \<Rightarrow> (Returned, w2)
           | (Some (NoCredentialsError t), w2) \<Rightarrow>
               (Returned, print_line ''Credentials not available.'' w2)
           | (Some (PartialCredentialsError t), w2) \<Rightarrow>
               (Returned, print_line ''Incomplete credentials provided.'' w2)
           | (Some e, w2) \<Rightarrow>
               (Returned, print_line (''An error occurred: '' @ str e) w2)))"

section \<open>The command line\<close>

definition usage_store_s3 :: string where
  "usage_store_s3 =
     ''./hiosctl.py store-s3 --bucket-name your-bucket-name --path /path/to/synthea_fhir_bundles''"

definition usage_ingest_healthlake :: string where
  "usage_ingest_healthlake =
     ''./hiosctl.py ingest-healthlake --bucket-name your-bucket-name --datastore-id your-datastore-id --darole-arn your-darole-arn''"

definition usage_doctor :: string where
  "usage_doctor =
     ''./hiosctl.py doctor --bucket-name your-bucket-name --datastore-id your-datastore-id''"

definition print_usage :: "world \<Rightarrow> world" where
  "print_usage w =
     print_line (''  '' @ usage_doctor)
       (print_line (''  '' @ usage_ingest_healthlake)
          (print_line (''  '' @ usage_store_s3) (print_line ''Usage:'' w)))"

definition main :: "string list \<Rightarrow> world \<Rightarrow> outcome \<times> world" where
  "main argv w =
     (if length argv < 2 then (Exited 1, print_usage w)
      else
        let command = argv ! 1 in
        if command = ''store-s3'' then
          (if length argv \<noteq> 6 \<or> argv ! 2 \<noteq> ''--bucket-name'' \<or> argv ! 4 \<noteq> ''--path'' then
             (Exited 1, print_line (''Usage: '' @ usage_store_s3) w)
           else
             let bucket_name = argv ! 3; synthea_fhir_bundles = argv ! 5 in
             if \<not> isdir w synthea_fhir_bundles then
               (Exited 1,
                print_line (''The specified path '' @ synthea_fhir_bundles
                            @ '' is not a directory.'') w)
             else store_s3 w bucket_name synthea_fhir_bundles)
        else if command = ''ingest-healthlake'' then
          (if length argv \<noteq> 8 \<or> argv ! 2 \<noteq> ''--bucket-name'' \<or> argv ! 4 \<noteq> ''--datastore-id''
              \<or> argv ! 6 \<noteq> ''--darole-arn'' then
             (Exited 1, print_line (''Usage: '' @ usage_ingest_healthlake) w)
           else ingest_healthlake w (argv ! 3) (argv ! 5) (argv ! 7))
        else if command = ''doctor'' then
          (if length argv \<noteq> 6 \<or> argv ! 2 \<noteq> ''--bucket-name'' \<or> argv ! 4 \<noteq> ''--datastore-id'' then
             (Exited 1, print_line (''Usage: '' @ usage_doctor) w)
           else doctor w (argv ! 3) (argv ! 5))
        else (Exited 1, print_usage (print_line (''Unknown command: '' @ command) w)))"

section \<open>What the script is compared with\<close>

text \<open>
  The definitions of this section are not taken from the script; the theorems compare
  the script with them.

  \<open>submission_fatal\<close> says that a submission raises an exception that is no
  \<open>ClientError\<close>. \<open>name_ok\<close> is what the file system guarantees of a name in a
  directory: it is not empty, holds no slash, and is neither \<open>.\<close> nor \<open>..\<close>;
  \<open>wf_dir\<close> says so of every name in a directory tree. \<open>joined_cwd\<close> (the path that
  \<open>abspath\<close> normalises) and \<open>comps_ok\<close> (components that are non-empty and free of
  slashes) serve the proofs about \<open>os.path\<close>.

  \<open>files_under ds d\<close> lists the non-directory entries of the tree
  \<open>d\<close>, each as the names of the directories that lead to it (after the prefix \<open>ds\<close>)
  and its own name, in the order of \<open>os.walk\<close>. \<open>relative_path\<close> joins these names
  with slashes: the path of the file relative to the top directory.
  \<open>bundles_under\<close> keeps the files whose name ends in \<open>.json\<close>, and \<open>sync_item\<close> gives
  the local path and the key of such a file. \<open>upload_all\<close> runs \<open>upload_to_s3\<close> on a
  list of such pairs, one after the other, until an exception leaves one of them.
  \<open>skipped_line\<close> is the line printed for a file that is already stored,
  \<open>head_checks\<close> the existence checks in a log of calls, and \<open>frame\<close> relates two
  worlds that differ at most in the stored objects, the log and the output.
\<close>

definition submission_fatal :: "world \<Rightarrow> import_job_request \<Rightarrow> bool" where
  "submission_fatal w request =
     (case start_fhir_import_job w request of
        Inr job_id \<Rightarrow> False
      | Inl (ClientError code text) \<Rightarrow> False
      | Inl e \<Rightarrow> True)"

definition name_ok :: "string \<Rightarrow> bool" where
  "name_ok name = (name \<noteq> [] \<and> sep \<notin> set name \<and> name \<noteq> ''.'' \<and> name \<noteq> ''..'')"

definition joined_cwd :: "world \<Rightarrow> string \<Rightarrow> string" where
  "joined_cwd w path = (if \<not> startswith path [sep] then os_path_join (getcwd w) path else path)"

definition comps_ok :: "string list \<Rightarrow> bool" where
  "comps_ok comps = (\<forall>c \<in> set comps. c \<noteq> [] \<and> sep \<notin> set c)"

fun wf_dir :: "dir \<Rightarrow> bool"
  and wf_subdirs :: "(string \<times> dir) list \<Rightarrow> bool"
where
  "wf_dir (Dir nondirs subdirs) = (list_all name_ok nondirs \<and> wf_subdirs subdirs)"
| "wf_subdirs [] = True"
| "wf_subdirs ((name, d) # subdirs) = (name_ok name \<and> wf_dir d \<and> wf_subdirs subdirs)"

fun files_under :: "string list \<Rightarrow> dir \<Rightarrow> (string list \<times> string) list"
  and files_under_subdirs :: "string list \<Rightarrow> (string \<times> dir) list \<Rightarrow> (string list \<times> string) list"
where
  "files_under ds (Dir nondirs subdirs) =
     map (\<lambda>filename. (ds, filename)) nondirs @ files_under_subdirs ds subdirs"
| "files_under_subdirs ds [] = []"
| "files_under_subdirs ds ((name, d) # subdirs) =
     files_under (ds @ [name]) d @ files_under_subdirs ds subdirs"

definition relative_path :: "string list \<times> string \<Rightarrow> string" where
  "relative_path file = str_join [sep] (fst file @ [snd file])"

definition bundles_under :: "string list \<Rightarrow> dir \<Rightarrow> (string list \<times> string) list" where
  "bundles_under ds d = filter (\<lambda>file. endswith (snd file) ''.json'') (files_under ds d)"

definition sync_item :: "string \<Rightarrow> string list \<times> string \<Rightarrow> string \<times> string" where
  "sync_item top_dir file =
     (foldl os_path_join top_dir (fst file @ [snd file]), replace_backslash (relative_path file))"

fun upload_all :: "world \<Rightarrow> string \<Rightarrow> (string \<times> string) list \<Rightarrow> outcome \<times> world" where
  "upload_all w bucket_name [] = (Returned, w)"
| "upload_all w bucket_name ((file_path, object_name) # items) =
     (case upload_to_s3 w file_path bucket_name object_name of
        (Returned, w') \<Rightarrow> upload_all w' bucket_name items
      | (out, w') \<Rightarrow> (out, w'))"

definition skipped_line :: "string \<Rightarrow> string \<Rightarrow> string" where
  "skipped_line bucket_name object_name =
     ''File already exists in s3://'' @ bucket_name @ ''/'' @ object_name @ '', skipping upload.''"

definition head_checks :: "call list \<Rightarrow> call list" where
  "head_checks cs = filter (\<lambda>c. case c of HeadObject bucket key \<Rightarrow> True | _ \<Rightarrow> False) cs"

definition frame :: "world \<Rightarrow> world \<Rightarrow> bool" where
  "frame w w' =
     (getcwd w' = getcwd w \<and> directories w' = directories w
      \<and> new_session w' = new_session w \<and> new_client w' = new_client w
      \<and> head_object_fault w' = head_object_fault w
      \<and> upload_file_fault w' = upload_file_fault w)"

section \<open>Concrete worlds and command lines\<close>

text \<open>
  The exceptions that the worlds raise: a \<open>ClientError\<close> of the service; botocore's
  \<open>NoCredentialsError\<close>; the \<open>ParamValidationError\<close> with which botocore refuses, before
  anything is sent, a request whose \<open>KmsKeyId\<close> is the empty string (the service model
  gives the parameter a minimal length of 1); the \<open>ValueError\<close> with which a client
  cannot be built for an empty region name. The last two are no \<open>ClientError\<close>.
\<close>

definition forbidden :: exn where
  "forbidden = ClientError ''403'' ''An error occurred (403): Forbidden''"

definition no_credentials :: exn where
  "no_credentials = NoCredentialsError ''Unable to locate credentials''"

definition kms_key_refused :: exn where
  "kms_key_refused =
     OtherException
       (''Parameter validation failed:'' @ [CHR 0x0A]
        @ ''Invalid length for parameter JobOutputDataConfig.S3Configuration.KmsKeyId, ''
        @ ''value: 0, valid min length: 1'')"

definition invalid_endpoint :: exn where
  "invalid_endpoint = OtherException ''Invalid endpoint: https://s3..amazonaws.com''"

text \<open>
  \<open>calm\<close> is a world in which nothing is stored, no variable is set and every call
  succeeds, except that the SDK refuses an import request with an empty \<open>KmsKeyId\<close>, as
  botocore does. The other worlds change single fields of it. They are the inputs at
  which the theorems below are evaluated.
\<close>

definition calm :: world where
  "calm =
     \<lparr>environ = (\<lambda>var. None),
      getcwd = ''/home/user'',
      directories = (\<lambda>path. None),
      new_session = None,
      new_client = (\<lambda>name. None),
      s3_objects = [],
      head_object_fault = (\<lambda>bucket key. None),
      upload_file_fault = (\<lambda>file_path bucket key. None),
      list_objects_v2 = (\<lambda>bucket. Inr None),
      start_fhir_import_job =
        (\<lambda>request. if KmsKeyId request = [] then Inl kms_key_refused else Inr ''job-1''),
      head_bucket = (\<lambda>bucket. None),
      describe_fhir_datastore = (\<lambda>datastore_id. None),
      calls = [],
      stdout = []\<rparr>"

text \<open>The argument lists of two commands.\<close>

definition store_argv :: "string \<Rightarrow> string \<Rightarrow> string list" where
  "store_argv b path = [''./hiosctl.py'', ''store-s3'', ''--bucket-name'', b, ''--path'', path]"

definition ingest_argv :: "string \<Rightarrow> string \<Rightarrow> string \<Rightarrow> string list" where
  "ingest_argv b d r =
     [''./hiosctl.py'', ''ingest-healthlake'', ''--bucket-name'', b, ''--datastore-id'', d,
      ''--darole-arn'', r]"

text \<open>
  Worlds for \<open>doctor\<close> and \<open>ingest-healthlake\<close>: the region unset; all three variables
  set; all three variables set to the empty string, so that no client can be built;
  the bucket forbidden; the listing forbidden; two objects listed.
\<close>

definition credentials :: "string \<Rightarrow> string option" where
  "credentials var =
     (if var \<in> set [''AWS_ACCESS_KEY_ID'', ''AWS_SECRET_ACCESS_KEY'', ''AWS_REGION'']
      then Some ''x'' else None)"

definition no_region :: world where
  "no_region = calm\<lparr>environ := (\<lambda>var. if var = ''AWS_REGION'' then None else Some ''x'')\<rparr>"

definition with_credentials :: world where
  "with_credentials = calm\<lparr>environ := credentials\<rparr>"

definition empty_values :: world where
  "empty_values =
     calm\<lparr>environ :=
            (\<lambda>var. if var \<in> set [''AWS_ACCESS_KEY_ID'', ''AWS_SECRET_ACCESS_KEY'', ''AWS_REGION'']
                   then Some [] else None),
          new_client := (\<lambda>name. Some invalid_endpoint)\<rparr>"

definition forbidden_bucket :: world where
  "forbidden_bucket = with_credentials\<lparr>head_bucket := (\<lambda>bucket. Some forbidden)\<rparr>"

definition unlistable :: world where
  "unlistable = with_credentials\<lparr>list_objects_v2 := (\<lambda>bucket. Inl forbidden)\<rparr>"

definition two_listed :: world where
  "two_listed = with_credentials\<lparr>list_objects_v2 := (\<lambda>bucket. Inr (Some [''a.json'', ''b.json'']))\<rparr>"

text \<open>
  Worlds for \<open>store-s3\<close>, each with a directory \<open>data\<close>: two bundles and a text file;
  the same with no credentials to be found, and
  with a bucket that does not exist (the existence check of an object answers 404, the
  upload fails with boto3's \<open>S3UploadFailedError\<close>); a bundle in a subdirectory; a
  bundle with a backslash in its name.
\<close>

definition two_bundles :: world where
  "two_bundles =
     calm\<lparr>directories :=
       (\<lambda>path. if path = ''data'' then Some (Dir [''a.json'', ''b.json'', ''c.txt''] []) else None)\<rparr>"

definition signed_out :: world where
  "signed_out = two_bundles\<lparr>head_object_fault := (\<lambda>bucket key. Some no_credentials)\<rparr>"

definition missing_bucket :: world where
  "missing_bucket =
     two_bundles\<lparr>upload_file_fault :=
       (\<lambda>file_path bucket key. Some (OtherException ''Failed to upload: An error occurred (NoSuchBucket) when calling the PutObject operation''))\<rparr>"

definition nested_bundles :: world where
  "nested_bundles =
     calm\<lparr>directories :=
       (\<lambda>path. if path = ''data''
              then Some (Dir [''a.json'', ''c.txt''] [(''sub'', Dir [''b.json''] [])])
              else None)\<rparr>"

definition backslash_name :: world where
  "backslash_name =
     calm\<lparr>directories :=
       (\<lambda>path. if path = ''data'' then Some (Dir [''a'' @ backslash # ''b.json''] []) else None)\<rparr>"

section \<open>Properties of the helper functions\<close>

lemma first_client_fault_stdout [simp]:
  "first_client_fault (w\<lparr>stdout := s\<rparr>) names = first_client_fault w names"
  by (induction names) (simp_all split: option.split)

lemma first_client_fault_calls [simp]:
  "first_client_fault (w\<lparr>calls := s\<rparr>) names = first_client_fault w names"
  by (induction names) (simp_all split: option.split)

lemma boto3_clients_stdout [simp]:
  "boto3_clients (w\<lparr>stdout := s\<rparr>) names = boto3_clients w names"
  by (simp add: boto3_clients_def split: option.split)

lemma boto3_clients_calls [simp]:
  "boto3_clients (w\<lparr>calls := s\<rparr>) names = boto3_clients w names"
  by (simp add: boto3_clients_def split: option.split)

lemma print_line_fields [simp]:
  "environ (print_line l w) = environ w"
  "getcwd (print_line l w) = getcwd w"
  "directories (print_line l w) = directories w"
  "new_session (print_line l w) = new_session w"
  "new_client (print_line l w) = new_client w"
  "s3_objects (print_line l w) = s3_objects w"
  "head_object_fault (print_line l w) = head_object_fault w"
  "upload_file_fault (print_line l w) = upload_file_fault w"
  "list_objects_v2 (print_line l w) = list_objects_v2 w"
  "start_fhir_import_job (print_line l w) = start_fhir_import_job w"
  "head_bucket (print_line l w) = head_bucket w"
  "describe_fhir_datastore (print_line l w) = describe_fhir_datastore w"
  "calls (print_line l w) = calls w"
  "stdout (print_line l w) = stdout w @ [l]"
  by (simp_all add: print_line_def)

lemma called_fields [simp]:
  "environ (called c w) = environ w"
  "getcwd (called c w) = getcwd w"
  "directories (called c w) = directories w"
  "new_session (called c w) = new_session w"
  "new_client (called c w) = new_client w"
  "s3_objects (called c w) = s3_objects w"
  "head_object_fault (called c w) = head_object_fault w"
  "upload_file_fault (called c w) = upload_file_fault w"
  "list_objects_v2 (called c w) = list_objects_v2 w"
  "start_fhir_import_job (called c w) = start_fhir_import_job w"
  "head_bucket (called c w) = head_bucket w"
  "describe_fhir_datastore (called c w) = describe_fhir_datastore w"
  "calls (called c w) = calls w @ [c]"
  "stdout (called c w) = stdout w"
  by (simp_all add: called_def)

lemma first_client_fault_none:
  "new_client w = (\<lambda>name. None) \<Longrightarrow> first_client_fault w names = None"
  by (induction names) simp_all

lemma with_credentials_fields [simp]:
  "missing_env_vars with_credentials = []"
  "boto3_clients with_credentials names = None"
  "calls with_credentials = []"
  "stdout with_credentials = []"
  by (simp_all add: with_credentials_def calm_def missing_env_vars_def required_env_vars_def
        credentials_def boto3_clients_def first_client_fault_none)

lemma head_object_stdout [simp]: "head_object (w\<lparr>stdout := s\<rparr>) = head_object w"
  by (simp add: head_object_def fun_eq_iff)

lemma head_object_calls [simp]: "head_object (w\<lparr>calls := s\<rparr>) = head_object w"
  by (simp add: head_object_def fun_eq_iff)

lemma head_object_print_line [simp]: "head_object (print_line l w) = head_object w"
  by (simp add: head_object_def fun_eq_iff)

lemma head_object_called [simp]: "head_object (called c w) = head_object w"
  by (simp add: head_object_def fun_eq_iff)

lemma submission_fatal_print_line [simp]:
  "submission_fatal (print_line l w) request = submission_fatal w request"
  by (simp add: submission_fatal_def)

lemma submission_fatal_called [simp]:
  "submission_fatal (called c w) request = submission_fatal w request"
  by (simp add: submission_fatal_def)

lemma main_ingest:
  "main (ingest_argv b d r) w = ingest_healthlake w b d r"
  by (simp add: main_def ingest_argv_def)

section \<open>Properties of the path functions\<close>

text \<open>
  The aim of this section is \<open>os_path_relpath_walk\<close>: for a path that \<open>os.walk\<close>
  builds from \<open>top_dir\<close> by joining names, \<open>os.path.relpath\<close> gives the names back,
  joined with slashes, whatever \<open>top_dir\<close> and the working directory are.
\<close>

lemma split_sep_not_Nil [simp]: "split_sep s \<noteq> []"
  by (induction s) (auto split: list.split)

lemma split_sep_append: "split_sep (a @ sep # b) = split_sep a @ split_sep b"
  by (induction a) (auto split: list.split)

lemma split_sep_name: "sep \<notin> set d \<Longrightarrow> split_sep d = [d]"
  by (induction d) auto

lemma split_sep_pieces: "c \<in> set (split_sep s) \<Longrightarrow> sep \<notin> set c"
  by (induction s arbitrary: c) (auto split: list.splits if_splits)

lemma split_sep_join:
  "comps \<noteq> [] \<Longrightarrow> \<forall>c \<in> set comps. sep \<notin> set c \<Longrightarrow> split_sep (str_join [sep] comps) = comps"
proof (induction "[sep]" comps rule: str_join.induct)
  case (3 x y ys)
  then show ?case using split_sep_append [of x "str_join [sep] (y # ys)"]
    by (simp add: split_sep_name)
qed (simp_all add: split_sep_name)

lemma str_join_snoc:
  "comps \<noteq> [] \<Longrightarrow> str_join s (comps @ [c]) = str_join s comps @ s @ c"
  by (induction s comps rule: str_join.induct) simp_all

lemma hd_str_join:
  "comps \<noteq> [] \<Longrightarrow> hd comps \<noteq> [] \<Longrightarrow> str_join s comps \<noteq> [] \<and> hd (str_join s comps) = hd (hd comps)"
  by (induction s comps rule: str_join.induct) simp_all

lemma endswith_sep: "endswith a [sep] \<longleftrightarrow> a \<noteq> [] \<and> last a = sep"
  by (cases a rule: rev_cases) (simp_all add: endswith_def)

lemma startswith_sep: "startswith a [sep] \<longleftrightarrow> a \<noteq> [] \<and> hd a = sep"
  by (cases a) (simp_all add: startswith_def)

lemma name_ok_hd: "name_ok d \<Longrightarrow> hd d \<noteq> sep"
  by (cases d) (auto simp: name_ok_def)

lemma os_path_join_name:
  "name_ok d \<Longrightarrow> p \<noteq> [] \<Longrightarrow>
   os_path_join p d = (if last p = sep then p @ d else p @ sep # d)"
  using name_ok_hd [of d]
  by (auto simp: os_path_join_def startswith_sep endswith_sep name_ok_def)

lemma os_path_join_not_Nil: "name_ok d \<Longrightarrow> os_path_join p d \<noteq> []"
  by (auto simp: os_path_join_def name_ok_def)

lemma normpath_step_name:
  "name_ok d \<Longrightarrow> normpath_step a comps d = comps @ [d]"
  by (simp add: normpath_step_def name_ok_def)

lemma normpath_step_empty [simp]: "normpath_step a comps [] = comps"
  by (simp add: normpath_step_def)

lemma stack_join:
  assumes "name_ok d" "p \<noteq> []"
  shows "foldl (normpath_step a) [] (split_sep (os_path_join p d))
       = foldl (normpath_step a) [] (split_sep p) @ [d]"
proof (cases "last p = sep")
  case True
  with assms(2) obtain q where q: "p = q @ [sep]"
    by (cases p rule: rev_cases) auto
  have "split_sep p = split_sep q @ [[]]"
    using split_sep_append [of q "[]"] q by simp
  moreover have "split_sep (os_path_join p d) = split_sep q @ [d]"
    using split_sep_append [of q d] q assms True
    by (simp add: os_path_join_name split_sep_name name_ok_def)
  ultimately show ?thesis using assms by (simp add: normpath_step_name)
next
  case False
  then have "split_sep (os_path_join p d) = split_sep p @ [d]"
    using split_sep_append [of p d] assms
    by (simp add: os_path_join_name split_sep_name name_ok_def)
  then show ?thesis using assms by (simp add: normpath_step_name)
qed

lemma joined_cwd_absolute:
  "startswith (getcwd w) [sep] \<Longrightarrow> startswith (joined_cwd w p) [sep]"
  by (auto simp: joined_cwd_def os_path_join_def startswith_sep)

lemma joined_cwd_join:
  assumes "startswith (getcwd w) [sep]" "p \<noteq> []" "name_ok d"
  shows "joined_cwd w (os_path_join p d) = os_path_join (joined_cwd w p) d"
proof (cases "startswith p [sep]")
  case True
  with assms show ?thesis
    by (auto simp: joined_cwd_def os_path_join_name startswith_sep)
next
  case False
  with assms have "\<not> startswith (os_path_join p d) [sep]"
    by (auto simp: os_path_join_name startswith_sep)
  with False assms name_ok_hd [of d] show ?thesis
    by (auto simp: joined_cwd_def os_path_join_def startswith_sep endswith_sep name_ok_def)
qed

lemma normpath_step_ok:
  "comps_ok acc \<Longrightarrow> sep \<notin> set c \<Longrightarrow> comps_ok (normpath_step a acc c)"
  by (auto simp: comps_ok_def normpath_step_def dest: in_set_butlastD)

lemma foldl_normpath_step_ok:
  "comps_ok acc \<Longrightarrow> \<forall>c \<in> set xs. sep \<notin> set c \<Longrightarrow> comps_ok (foldl (normpath_step a) acc xs)"
  by (induction xs arbitrary: acc) (simp_all add: normpath_step_ok)

lemma stack_ok: "comps_ok (foldl (normpath_step a) [] (split_sep p))"
  by (rule foldl_normpath_step_ok) (auto simp: comps_ok_def dest: split_sep_pieces)

lemma initial_slashes_absolute:
  "startswith p [sep] \<Longrightarrow> initial_slashes p \<noteq> 0 \<and> p \<noteq> []"
  by (auto simp: initial_slashes_def startswith_sep)

lemma dropWhile_join:
  "comps_ok comps \<Longrightarrow>
   dropWhile (\<lambda>c. c = sep) (replicate n sep @ str_join [sep] comps) = str_join [sep] comps"
proof (cases comps)
  case Nil
  then show ?thesis by (induction n) simp_all
next
  case (Cons c cs)
  assume "comps_ok comps"
  with Cons have c: "c \<noteq> []" "sep \<notin> set c"
    by (simp_all add: comps_ok_def)
  then have "hd c \<noteq> sep"
    by (cases c) auto
  moreover from Cons c have "str_join [sep] comps \<noteq> [] \<and> hd (str_join [sep] comps) = hd c"
    using hd_str_join [of comps "[sep]"] by simp
  ultimately have "str_join [sep] comps \<noteq> [] \<and> hd (str_join [sep] comps) \<noteq> sep"
    by simp
  then obtain x xs where "str_join [sep] comps = x # xs" "x \<noteq> sep"
    by (cases "str_join [sep] comps") simp_all
  then show ?thesis by (induction n) simp_all
qed

lemma path_list_absolute:
  assumes "startswith (getcwd w) [sep]"
  shows "path_list w p = foldl (normpath_step True) [] (split_sep (joined_cwd w p))"
proof -
  let ?A = "joined_cwd w p"
  let ?S = "foldl (normpath_step True) [] (split_sep ?A)"
  have abs: "initial_slashes ?A \<noteq> 0 \<and> ?A \<noteq> []"
    using assms by (intro initial_slashes_absolute joined_cwd_absolute)
  have ok: "comps_ok ?S" by (rule stack_ok)
  have n: "normpath ?A = replicate (initial_slashes ?A) sep @ str_join [sep] ?S"
    using abs by (simp add: normpath_def Let_def)
  have tail: "dropWhile (\<lambda>c. c = sep) (abspath w p) = str_join [sep] ?S"
    using n dropWhile_join [OF ok] by (simp add: abspath_def joined_cwd_def)
  show ?thesis
  proof (cases "?S = []")
    case True
    with tail show ?thesis by (simp add: path_list_def)
  next
    case False
    with ok have "str_join [sep] ?S \<noteq> []"
      using hd_str_join [of ?S "[sep]"] by (cases ?S) (auto simp: comps_ok_def)
    with tail False ok show ?thesis
      by (simp add: path_list_def Let_def split_sep_join comps_ok_def)
  qed
qed

lemma foldl_join_not_Nil:
  "p \<noteq> [] \<Longrightarrow> \<forall>d \<in> set names. name_ok d \<Longrightarrow> foldl os_path_join p names \<noteq> []"
  by (induction names arbitrary: p) (simp_all add: os_path_join_not_Nil)

lemma path_list_walk:
  assumes "startswith (getcwd w) [sep]"
  shows "p \<noteq> [] \<Longrightarrow> \<forall>d \<in> set names. name_ok d \<Longrightarrow>
         path_list w (foldl os_path_join p names) = path_list w p @ names"
proof (induction names arbitrary: p)
  case Nil
  then show ?case by simp
next
  case (Cons d names)
  then have d: "name_ok d" and p: "p \<noteq> []" by simp_all
  have "joined_cwd w p \<noteq> []"
    using joined_cwd_absolute [OF assms, of p] by (auto simp: startswith_sep)
  then have "path_list w (os_path_join p d) = path_list w p @ [d]"
    using assms d p by (simp add: path_list_absolute joined_cwd_join stack_join)
  with Cons.IH [of "os_path_join p d"] Cons.prems d show ?case
    by (simp add: os_path_join_not_Nil)
qed

lemma commonprefix_append [simp]: "commonprefix xs (xs @ ys) = xs"
  by (induction xs) simp_all

lemma os_path_relpath_walk:
  assumes "startswith (getcwd w) [sep]" "top_dir \<noteq> []" "names \<noteq> []" "\<forall>d \<in> set names. name_ok d"
  shows "os_path_relpath w (foldl os_path_join top_dir names) top_dir = Inr (str_join [sep] names)"
  using assms foldl_join_not_Nil [of top_dir names]
  by (simp add: os_path_relpath_def path_list_walk Let_def)

section \<open>The import job name\<close>

text \<open>
  C6. The job name of an import request is \<open>Ingest-\<close> followed by the first 55
  characters of the object key: it has at most 64 characters, and it is the same
  whatever the bucket, the datastore and the role of the run are, so it depends on the
  key alone.
\<close>

theorem job_name_bounded:
  "JobName (import_request b d r k) = ''Ingest-'' @ take 55 k
   \<and> length (JobName (import_request b d r k)) \<le> 64
   \<and> JobName (import_request b' d' r' k) = JobName (import_request b d r k)"
  by (simp add: import_request_def job_name_def)

section \<open>doctor: the credential check\<close>

text \<open>
  C7, as the code has it. When one of \<open>AWS_ACCESS_KEY_ID\<close>, \<open>AWS_SECRET_ACCESS_KEY\<close>
  and \<open>AWS_REGION\<close> is unset, \<open>doctor\<close> prints exactly the unset ones among them and
  exits with status 1; the log of remote calls is untouched. When all three are set,
  \<open>doctor\<close> builds the SDK clients. If they can be built it makes the bucket-head
  call, and the datastore-describe call when the bucket-head call returns; these are
  all its remote calls. If they cannot be built, the exception leaves \<open>doctor\<close> after
  the line that all variables are set, and no remote call is made.
\<close>

theorem doctor_credential_check:
  "(environ w ''AWS_ACCESS_KEY_ID'' = None \<or> environ w ''AWS_SECRET_ACCESS_KEY'' = None
      \<or> environ w ''AWS_REGION'' = None \<longrightarrow>
      doctor w b d =
        (Exited 1,
         w\<lparr>stdout := stdout w @ [''Missing required environment variables: ''
             @ str_join '', ''
                 (filter (\<lambda>var. environ w var = None)
                    [''AWS_ACCESS_KEY_ID'', ''AWS_SECRET_ACCESS_KEY'', ''AWS_REGION''])]\<rparr>))
   \<and> (environ w ''AWS_ACCESS_KEY_ID'' \<noteq> None \<and> environ w ''AWS_SECRET_ACCESS_KEY'' \<noteq> None
        \<and> environ w ''AWS_REGION'' \<noteq> None \<longrightarrow>
        (boto3_clients w [''s3'', ''healthlake''] = None \<longrightarrow>
           calls (snd (doctor w b d))
             = calls w @ HeadBucket b
                 # (if head_bucket w b = None then [DescribeFHIRDatastore d] else []))
        \<and> (\<forall>e. boto3_clients w [''s3'', ''healthlake''] = Some e \<longrightarrow>
              doctor w b d =
                (Raised e,
                 w\<lparr>stdout := stdout w @ [''All required environment variables are set.'']\<rparr>)))"
proof (intro conjI impI allI)
  assume "environ w ''AWS_ACCESS_KEY_ID'' = None \<or> environ w ''AWS_SECRET_ACCESS_KEY'' = None
      \<or> environ w ''AWS_REGION'' = None"
  then have "missing_env_vars w \<noteq> []"
    by (auto simp: missing_env_vars_def required_env_vars_def)
  then show "doctor w b d =
        (Exited 1,
         w\<lparr>stdout := stdout w @ [''Missing required environment variables: ''
             @ str_join '', ''
                 (filter (\<lambda>var. environ w var = None)
                    [''AWS_ACCESS_KEY_ID'', ''AWS_SECRET_ACCESS_KEY'', ''AWS_REGION''])]\<rparr>)"
    by (simp add: doctor_def print_line_def)
       (simp add: missing_env_vars_def required_env_vars_def)
next
  assume set: "environ w ''AWS_ACCESS_KEY_ID'' \<noteq> None \<and> environ w ''AWS_SECRET_ACCESS_KEY'' \<noteq> None
        \<and> environ w ''AWS_REGION'' \<noteq> None"
  then have m: "missing_env_vars w = []"
    by (simp add: missing_env_vars_def required_env_vars_def)
  {
    assume "boto3_clients w [''s3'', ''healthlake''] = None"
    with m show "calls (snd (doctor w b d))
             = calls w @ HeadBucket b
                 # (if head_bucket w b = None then [DescribeFHIRDatastore d] else [])"
      by (simp add: doctor_def Let_def print_line_def called_def
               split: option.split exn.split)
  next
    fix e
    assume "boto3_clients w [''s3'', ''healthlake''] = Some e"
    with m show "doctor w b d =
                (Raised e,
                 w\<lparr>stdout := stdout w @ [''All required environment variables are set.'']\<rparr>)"
      by (simp add: doctor_def Let_def print_line_def)
  }
qed

text \<open>
  The witness of C7: the region unset; the three variables set and every call
  succeeding; the three variables set to the empty string.
\<close>

theorem doctor_credential_check_witness:
  "doctor no_region ''bk'' ''ds''
     = (Exited 1,
        no_region\<lparr>stdout := [''Missing required environment variables: AWS_REGION'']\<rparr>)
   \<and> calls (snd (doctor with_credentials ''bk'' ''ds''))
       = [HeadBucket ''bk'', DescribeFHIRDatastore ''ds'']
   \<and> doctor empty_values ''bk'' ''ds''
       = (Raised invalid_endpoint,
          empty_values\<lparr>stdout := [''All required environment variables are set.'']\<rparr>)"
proof -
  have n: "environ no_region ''AWS_ACCESS_KEY_ID'' = Some ''x''"
    "environ no_region ''AWS_SECRET_ACCESS_KEY'' = Some ''x''"
    "environ no_region ''AWS_REGION'' = None" "stdout no_region = []"
    by (simp_all add: no_region_def calm_def)
  have c: "environ with_credentials ''AWS_ACCESS_KEY_ID'' = Some ''x''"
    "environ with_credentials ''AWS_SECRET_ACCESS_KEY'' = Some ''x''"
    "environ with_credentials ''AWS_REGION'' = Some ''x''"
    "boto3_clients with_credentials [''s3'', ''healthlake''] = None"
    "head_bucket with_credentials ''bk'' = None" "calls with_credentials = []"
    by (simp_all add: with_credentials_def credentials_def calm_def boto3_clients_def)
  have e: "environ empty_values ''AWS_ACCESS_KEY_ID'' = Some []"
    "environ empty_values ''AWS_SECRET_ACCESS_KEY'' = Some []"
    "environ empty_values ''AWS_REGION'' = Some []"
    "boto3_clients empty_values [''s3'', ''healthlake''] = Some invalid_endpoint"
    "stdout empty_values = []"
    by (simp_all add: empty_values_def calm_def boto3_clients_def)
  show ?thesis
    using doctor_credential_check [of no_region "''bk''" "''ds''"]
          doctor_credential_check [of with_credentials "''bk''" "''ds''"]
          doctor_credential_check [of empty_values "''bk''" "''ds''"] n c e
    by simp
qed

text \<open>
  C7 as it is stated fails in its last part: with the three variables set to the empty
  string, no client can be built, and \<open>doctor\<close> ends with that exception before any
  remote check.
\<close>

theorem doctor_empty_values_counterexample:
  "environ empty_values ''AWS_ACCESS_KEY_ID'' = Some []
   \<and> environ empty_values ''AWS_SECRET_ACCESS_KEY'' = Some []
   \<and> environ empty_values ''AWS_REGION'' = Some []
   \<and> fst (doctor empty_values ''bk'' ''ds'') = Raised invalid_endpoint
   \<and> calls (snd (doctor empty_values ''bk'' ''ds'')) = []"
  by (simp add: empty_values_def calm_def doctor_def missing_env_vars_def required_env_vars_def
        boto3_clients_def print_line_def)

section \<open>doctor: the bucket check\<close>

text \<open>
  C1, as the code has it. With the three variables set (and the SDK clients built), a
  \<open>ClientError\<close> of the bucket-head call is printed with its detail and \<open>doctor\<close> exits
  with status 1 at once: the only remote call made is the bucket-head call, so the
  datastore is not described.
\<close>

theorem doctor_bucket_failure_exits:
  "missing_env_vars w = [] \<Longrightarrow> boto3_clients w [''s3'', ''healthlake''] = None \<Longrightarrow>
   head_bucket w b = Some (ClientError code text) \<Longrightarrow>
   doctor w b d =
     (Exited 1,
      w\<lparr>calls := calls w @ [HeadBucket b],
        stdout := stdout w @ [''All required environment variables are set.'',
                              ''Could not access S3 bucket '' @ apostrophe @ b @ apostrophe
                              @ '': '' @ text]\<rparr>)"
  by (simp add: doctor_def Let_def print_line_def called_def)

text \<open>The witness of C1: the theorem at a world whose bucket answers 403.\<close>

theorem doctor_bucket_failure_exits_witness:
  "doctor forbidden_bucket ''bk'' ''ds'' =
     (Exited 1,
      forbidden_bucket\<lparr>calls := [HeadBucket ''bk''],
        stdout := [''All required environment variables are set.'',
                   ''Could not access S3 bucket '' @ apostrophe @ ''bk'' @ apostrophe
                   @ '': An error occurred (403): Forbidden'']\<rparr>)"
proof -
  have "missing_env_vars forbidden_bucket = []"
    by (simp add: forbidden_bucket_def with_credentials_def calm_def missing_env_vars_def
          required_env_vars_def credentials_def)
  moreover have "boto3_clients forbidden_bucket [''s3'', ''healthlake''] = None"
    by (simp add: forbidden_bucket_def with_credentials_def calm_def boto3_clients_def)
  moreover have "head_bucket forbidden_bucket ''bk''
      = Some (ClientError ''403'' ''An error occurred (403): Forbidden'')"
    by (simp add: forbidden_bucket_def forbidden_def)
  moreover have "calls forbidden_bucket = [] \<and> stdout forbidden_bucket = []"
    by (simp add: forbidden_bucket_def with_credentials_def calm_def)
  ultimately show ?thesis
    using doctor_bucket_failure_exits [of forbidden_bucket "''bk''" "''403''"
        "''An error occurred (403): Forbidden''" "''ds''"]
    by simp
qed

text \<open>
  C1 as it is stated fails: with the variables set, the bucket forbidden and the
  datastore fine, no datastore-describe call is made.
\<close>

theorem doctor_bucket_failure_counterexample:
  "missing_env_vars forbidden_bucket = []
   \<and> head_bucket forbidden_bucket ''bk'' = Some forbidden
   \<and> describe_fhir_datastore forbidden_bucket ''ds'' = None
   \<and> DescribeFHIRDatastore ''ds'' \<notin> set (calls (snd (doctor forbidden_bucket ''bk'' ''ds'')))"
  by (simp add: forbidden_bucket_def with_credentials_def calm_def missing_env_vars_def
        required_env_vars_def credentials_def boto3_clients_def doctor_def forbidden_def
        print_line_def called_def)

section \<open>ingest-healthlake\<close>

lemma ingest_healthlake_returns:
  "boto3_clients w [''s3'', ''healthlake''] = None \<Longrightarrow>
   fst (ingest_healthlake w b d r) = Returned"
  by (simp add: ingest_healthlake_def split: prod.split option.split exn.split)

text \<open>
  C3, as the code has it. Once the SDK clients are built, the \<open>ingest-healthlake\<close>
  command ends with status 0 whatever the listing and the submissions answer. A failed
  listing ends the operation (the listing is the only remote call, and one line is
  printed), but the status is 0 all the same.
\<close>

theorem ingest_exit_code:
  "boto3_clients w [''s3'', ''healthlake''] = None \<Longrightarrow>
   exit_code (fst (main (ingest_argv b d r) w)) = 0
   \<and> (list_objects_v2 w b = Inl e \<longrightarrow>
        calls (snd (main (ingest_argv b d r) w)) = calls w @ [ListObjectsV2 b]
        \<and> length (stdout (snd (main (ingest_argv b d r) w))) = Suc (length (stdout w)))"
  by (simp add: main_ingest ingest_healthlake_returns)
     (simp add: ingest_healthlake_def ingest_try_def split: exn.split)

text \<open>The witness of C3: the theorem at a world whose listing is refused.\<close>

theorem ingest_exit_code_witness:
  "exit_code (fst (main (ingest_argv ''bk'' ''ds'' ''arn'') unlistable)) = 0
   \<and> calls (snd (main (ingest_argv ''bk'' ''ds'' ''arn'') unlistable)) = [ListObjectsV2 ''bk'']
   \<and> length (stdout (snd (main (ingest_argv ''bk'' ''ds'' ''arn'') unlistable))) = 1"
proof -
  have "boto3_clients unlistable [''s3'', ''healthlake''] = None"
    by (simp add: unlistable_def with_credentials_def calm_def boto3_clients_def)
  moreover have "list_objects_v2 unlistable ''bk'' = Inl forbidden"
    by (simp add: unlistable_def)
  moreover have "calls unlistable = [] \<and> stdout unlistable = []"
    by (simp add: unlistable_def)
  ultimately show ?thesis
    using ingest_exit_code [where w = unlistable and b = "''bk''" and d = "''ds''"
        and r = "''arn''" and e = forbidden]
    by simp
qed

text \<open>
  C3 as it is stated fails: the listing is refused and the status is 0, not non-zero.
\<close>

theorem ingest_listing_failure_counterexample:
  "list_objects_v2 unlistable ''bk'' = Inl forbidden
   \<and> exit_code (fst (main (ingest_argv ''bk'' ''ds'' ''arn'') unlistable)) = 0"
  by (simp add: main_ingest ingest_healthlake_def ingest_try_def unlistable_def forbidden_def
        with_credentials_def calm_def boto3_clients_def called_def print_line_def)

text \<open>
  The part of C4 that holds: when the listing has no \<open>Contents\<close>, the listing is the
  only call, one line says that there is nothing, and the function returns.
\<close>

lemma ingest_empty_listing:
  "boto3_clients w [''s3'', ''healthlake''] = None \<Longrightarrow> list_objects_v2 w b = Inr None \<Longrightarrow>
   ingest_healthlake w b d r =
     (Returned, w\<lparr>calls := calls w @ [ListObjectsV2 b],
                  stdout := stdout w @ [''No objects found in the S3 bucket.'']\<rparr>)"
  by (simp add: ingest_healthlake_def ingest_try_def print_line_def called_def)

text \<open>
  C4 fails on the code. Every request that the script builds has the empty string as
  its \<open>KmsKeyId\<close> (line 94, marked TODO). When the SDK refuses such a request with an
  exception that is no \<open>ClientError\<close>, as botocore's parameter validation does, the
  handler of the loop does not catch it: the exception leaves the loop at the first
  listed key. So whatever the listing holds after its first key, the calls are the
  listing and the one request of the first key, whose fields are those below; the keys
  after the first get no request.
\<close>

theorem ingest_stops_at_first_key:
  "boto3_clients w [''s3'', ''healthlake''] = None \<Longrightarrow>
   list_objects_v2 w b = Inr (Some (k # keys)) \<Longrightarrow>
   \<forall>request. KmsKeyId request = [] \<longrightarrow> submission_fatal w request \<Longrightarrow>
   fst (ingest_healthlake w b d r) = Returned
   \<and> calls (snd (ingest_healthlake w b d r))
       = calls w @
         [ListObjectsV2 b,
          StartFHIRImportJob
            \<lparr>DatastoreId = d,
             InputS3Uri = ''s3://'' @ b @ ''/'' @ k,
             JobName = ''Ingest-'' @ take 55 k,
             DataAccessRoleArn = r,
             OutputS3Uri = ''s3://'' @ b @ ''/healthlake-start_fhir_import_job-output/'',
             KmsKeyId = []\<rparr>]"
proof -
  assume clients: "boto3_clients w [''s3'', ''healthlake''] = None"
    and listing: "list_objects_v2 w b = Inr (Some (k # keys))"
    and refused: "\<forall>request. KmsKeyId request = [] \<longrightarrow> submission_fatal w request"
  let ?request = "import_request b d r k"
  have fields: "?request =
      \<lparr>DatastoreId = d,
       InputS3Uri = ''s3://'' @ b @ ''/'' @ k,
       JobName = ''Ingest-'' @ take 55 k,
       DataAccessRoleArn = r,
       OutputS3Uri = ''s3://'' @ b @ ''/healthlake-start_fhir_import_job-output/'',
       KmsKeyId = []\<rparr>"
    by (simp add: import_request_def s3_uri_def job_name_def)
  then have "KmsKeyId ?request = []"
    by simp
  with refused have "submission_fatal w ?request"
    by blast
  then obtain e where e: "start_fhir_import_job w ?request = Inl e"
    and not_client: "\<forall>code t. e \<noteq> ClientError code t"
    by (auto simp: submission_fatal_def split: sum.splits exn.splits)
  let ?w2 = "called (StartFHIRImportJob ?request)
      (print_line (''Ingesting '' @ s3_uri b k @ '' into AWS HealthLake...'')
         (called (ListObjectsV2 b) w))"
  have "ingest_contents (called (ListObjectsV2 b) w) b d r (k # keys) = (Some e, ?w2)"
    using e not_client by (cases e) (simp_all add: Let_def)
  with listing have body: "ingest_try w b d r = (Some e, ?w2)"
    by (simp add: ingest_try_def)
  have "calls (snd (ingest_healthlake w b d r)) = calls ?w2"
    using clients body by (cases e) (simp_all add: ingest_healthlake_def)
  with fields clients show ?thesis
    by (simp add: ingest_healthlake_returns)
qed

text \<open>
  The run at a listing of \<open>a.json\<close> and \<open>b.json\<close>: one request, for \<open>a.json\<close>; the
  two lines printed are the announcement for \<open>a.json\<close> and the error of the outer
  handler.
\<close>

theorem ingest_stops_at_first_key_witness:
  "list_objects_v2 two_listed ''bk'' = Inr (Some [''a.json'', ''b.json''])
   \<and> fst (ingest_healthlake two_listed ''bk'' ''ds'' ''arn'') = Returned
   \<and> calls (snd (ingest_healthlake two_listed ''bk'' ''ds'' ''arn''))
       = [ListObjectsV2 ''bk'',
          StartFHIRImportJob
            \<lparr>DatastoreId = ''ds'',
             InputS3Uri = ''s3://bk/a.json'',
             JobName = ''Ingest-a.json'',
             DataAccessRoleArn = ''arn'',
             OutputS3Uri = ''s3://bk/healthlake-start_fhir_import_job-output/'',
             KmsKeyId = []\<rparr>]"
proof -
  have a: "boto3_clients two_listed [''s3'', ''healthlake''] = None"
    by (simp add: two_listed_def boto3_clients_def with_credentials_def calm_def)
  have b: "list_objects_v2 two_listed ''bk'' = Inr (Some [''a.json'', ''b.json''])"
    by (simp add: two_listed_def)
  have c: "\<forall>request. KmsKeyId request = [] \<longrightarrow> submission_fatal two_listed request"
    by (simp add: two_listed_def with_credentials_def calm_def submission_fatal_def
          kms_key_refused_def)
  have d: "calls two_listed = []"
    by (simp add: two_listed_def with_credentials_def calm_def)
  show ?thesis
    using ingest_stops_at_first_key [OF a b c, of "''ds''" "''arn''"] b d
    by simp
qed

section \<open>store-s3: one file\<close>

text \<open>
  The part of C9 that holds. \<open>upload_to_s3\<close> always makes the existence check, and makes
  the upload call exactly when the check fails with the error code 404. For a
  \<open>ClientError\<close> with any other code the function prints the error and returns, with
  nothing else changed.
\<close>

lemma upload_to_s3_cases:
  "calls (snd (upload_to_s3 w p b k))
     = calls w @ HeadObject b k
         # (if \<exists>t. head_object w b k = Some (ClientError ''404'' t)
            then [UploadFile p b k ''application/json''] else [])
   \<and> (head_object w b k = Some (ClientError code t) \<and> code \<noteq> ''404'' \<longrightarrow>
        upload_to_s3 w p b k =
          (Returned, w\<lparr>calls := calls w @ [HeadObject b k],
                       stdout := stdout w @ [''An error occurred: '' @ t]\<rparr>))"
proof (intro conjI impI)
  show "calls (snd (upload_to_s3 w p b k))
     = calls w @ HeadObject b k
         # (if \<exists>t. head_object w b k = Some (ClientError ''404'' t)
            then [UploadFile p b k ''application/json''] else [])"
    by (auto simp: upload_to_s3_def upload_file_def Let_def
             split: option.splits exn.splits sum.splits)
next
  assume "head_object w b k = Some (ClientError code t) \<and> code \<noteq> ''404''"
  then show "upload_to_s3 w p b k =
      (Returned, w\<lparr>calls := calls w @ [HeadObject b k],
                   stdout := stdout w @ [''An error occurred: '' @ t]\<rparr>)"
    by (simp add: upload_to_s3_def Let_def print_line_def called_def)
qed

text \<open>
  C9 fails on the code where it says that the error of the existence check is recorded.
  When the check raises an exception that is no \<open>ClientError\<close> (no credentials, no
  network), \<open>upload_to_s3\<close> has no handler for it: the exception leaves the function, the
  existence check is the only call logged, and nothing is printed. The file is neither
  reported as present nor uploaded, but the error is recorded nowhere.
\<close>

theorem upload_to_s3_check_raises:
  "head_object w b k = Some e \<Longrightarrow> \<forall>code t. e \<noteq> ClientError code t \<Longrightarrow>
   upload_to_s3 w p b k = (Raised e, w\<lparr>calls := calls w @ [HeadObject b k]\<rparr>)
   \<and> stdout (snd (upload_to_s3 w p b k)) = stdout w
   \<and> s3_objects (snd (upload_to_s3 w p b k)) = s3_objects w"
  by (cases e) (simp_all add: upload_to_s3_def Let_def called_def)

text \<open>
  The run for \<open>a.json\<close> without credentials: the outcome is the exception, one call is
  logged and the output stays empty.
\<close>

theorem upload_to_s3_check_raises_witness:
  "head_object signed_out ''bk'' ''a.json'' = Some no_credentials
   \<and> upload_to_s3 signed_out ''data/a.json'' ''bk'' ''a.json''
       = (Raised no_credentials, signed_out\<lparr>calls := [HeadObject ''bk'' ''a.json'']\<rparr>)
   \<and> stdout (snd (upload_to_s3 signed_out ''data/a.json'' ''bk'' ''a.json'')) = []"
proof -
  have a: "head_object signed_out ''bk'' ''a.json'' = Some no_credentials"
    by (simp add: head_object_def signed_out_def)
  have b: "\<forall>code t. no_credentials \<noteq> ClientError code t"
    by (simp add: no_credentials_def)
  have c: "calls signed_out = [] \<and> stdout signed_out = []"
    by (simp add: signed_out_def two_bundles_def calm_def)
  show ?thesis
    using upload_to_s3_check_raises [OF a b, of "''data/a.json''"] a c
    by simp
qed

section \<open>store-s3: the loops\<close>

lemma frame_refl [simp]: "frame w w"
  by (simp add: frame_def)

lemma frame_trans: "frame w w' \<Longrightarrow> frame w' w'' \<Longrightarrow> frame w w''"
  by (simp add: frame_def)

lemma frame_print_line [simp]: "frame w (print_line l w') \<longleftrightarrow> frame w w'"
  by (simp add: frame_def)

lemma frame_called [simp]: "frame w (called c w') \<longleftrightarrow> frame w w'"
  by (simp add: frame_def)

lemma upload_file_frame: "upload_file w p b k = Inr w' \<Longrightarrow> frame v w' = frame v w"
  by (auto simp: upload_file_def frame_def split: option.splits)

lemma upload_to_s3_frame: "frame w (snd (upload_to_s3 w p b k))"
  by (auto simp: upload_to_s3_def Let_def upload_file_frame
           split: option.split exn.split sum.split)

lemma upload_to_s3_outcome: "fst (upload_to_s3 w p b k) \<noteq> Exited n"
  by (simp add: upload_to_s3_def Let_def split: option.split exn.split sum.split)

lemma upload_all_frame: "frame w (snd (upload_all w b items))"
proof (induction items arbitrary: w)
  case Nil
  show ?case by simp
next
  case (Cons item items)
  obtain p k where item: "item = (p, k)" by (cases item)
  obtain out w' where u: "upload_to_s3 w p b k = (out, w')" by (cases "upload_to_s3 w p b k")
  with upload_to_s3_frame [of w p b k] have f: "frame w w'" by simp
  show ?case
  proof (cases out)
    case Returned
    with item u f Cons.IH [of w'] show ?thesis by (auto intro: frame_trans)
  qed (use item u f in simp_all)
qed

lemma upload_all_append:
  "upload_all w b (xs @ ys) =
     (case upload_all w b xs of (Returned, w') \<Rightarrow> upload_all w' b ys | (out, w') \<Rightarrow> (out, w'))"
proof (induction xs arbitrary: w)
  case Nil
  show ?case by simp
next
  case (Cons item xs)
  obtain p k where item: "item = (p, k)" by (cases item)
  obtain out w' where u: "upload_to_s3 w p b k = (out, w')" by (cases "upload_to_s3 w p b k")
  show ?case using item u Cons.IH [of w'] by (cases out) simp_all
qed

lemma store_walk_append:
  "store_walk w b t (xs @ ys) =
     (case store_walk w b t xs of (Returned, w') \<Rightarrow> store_walk w' b t ys | (out, w') \<Rightarrow> (out, w'))"
proof (induction xs arbitrary: w)
  case Nil
  show ?case by simp
next
  case (Cons triple xs)
  obtain root dirs files where triple: "triple = (root, dirs, files)" by (cases triple)
  obtain out w' where u: "store_files w b t root files = (out, w')"
    by (cases "store_files w b t root files")
  show ?case using triple u Cons.IH [of w'] by (cases out) simp_all
qed

lemma path_list_frame: "frame w w' \<Longrightarrow> path_list w' p = path_list w p"
  by (simp add: path_list_def abspath_def frame_def)

lemma os_path_relpath_frame:
  assumes "frame w w'"
  shows "os_path_relpath w' p s = os_path_relpath w p s"
  using path_list_frame [OF assms, of p] path_list_frame [OF assms, of s]
  by (simp add: os_path_relpath_def)

lemma store_files_flat:
  assumes "startswith (getcwd w) [sep]" "t \<noteq> []" "\<forall>d \<in> set ds. name_ok d" "list_all name_ok files"
  shows "store_files w b t (foldl os_path_join t ds) files
       = upload_all w b (map (sync_item t)
           (filter (\<lambda>file. endswith (snd file) ''.json'') (map (\<lambda>filename. (ds, filename)) files)))"
  using assms
proof (induction files arbitrary: w)
  case Nil
  show ?case by simp
next
  case (Cons f files)
  show ?case
  proof (cases "endswith f ''.json''")
    case False
    with Cons show ?thesis by simp
  next
    case True
    let ?p = "os_path_join (foldl os_path_join t ds) f"
    let ?k = "replace_backslash (str_join [sep] (ds @ [f]))"
    have rel: "os_path_relpath w ?p t = Inr (str_join [sep] (ds @ [f]))"
      using os_path_relpath_walk [of w t "ds @ [f]"] Cons.prems by simp
    obtain out w' where u: "upload_to_s3 w ?p b ?k = (out, w')"
      by (cases "upload_to_s3 w ?p b ?k")
    with upload_to_s3_frame [of w ?p b ?k] have "frame w w'" by simp
    then have "startswith (getcwd w') [sep]"
      using Cons.prems(1) by (simp add: frame_def)
    with Cons.IH [of w'] Cons.prems
    have "store_files w' b t (foldl os_path_join t ds) files
       = upload_all w' b (map (sync_item t)
           (filter (\<lambda>file. endswith (snd file) ''.json'') (map (\<lambda>filename. (ds, filename)) files)))"
      by simp
    moreover have "sync_item t (ds, f) = (?p, ?k)"
      by (simp add: sync_item_def relative_path_def)
    ultimately show ?thesis using True rel u
      by (cases out) simp_all
  qed
qed

lemma frame_cwd: "frame w w' \<Longrightarrow> startswith (getcwd w) [sep] \<Longrightarrow> startswith (getcwd w') [sep]"
  by (simp add: frame_def)

lemma store_walk_flat:
  "wf_dir d \<Longrightarrow> startswith (getcwd w) [sep] \<Longrightarrow> t \<noteq> [] \<Longrightarrow> \<forall>x \<in> set ds. name_ok x \<Longrightarrow>
     store_walk w b t (os_walk (foldl os_path_join t ds) d)
       = upload_all w b (map (sync_item t) (bundles_under ds d))"
  and "wf_subdirs subdirs \<Longrightarrow> startswith (getcwd w) [sep] \<Longrightarrow> t \<noteq> [] \<Longrightarrow>
     \<forall>x \<in> set ds. name_ok x \<Longrightarrow>
     store_walk w b t (os_walk_subdirs (foldl os_path_join t ds) subdirs)
       = upload_all w b (map (sync_item t)
           (filter (\<lambda>file. endswith (snd file) ''.json'') (files_under_subdirs ds subdirs)))"
proof (induction ds d and ds subdirs arbitrary: w and w rule: files_under_files_under_subdirs.induct)
  case (1 ds nondirs subdirs)
  let ?root = "foldl os_path_join t ds"
  let ?X = "map (sync_item t)
      (filter (\<lambda>file. endswith (snd file) ''.json'') (map (\<lambda>filename. (ds, filename)) nondirs))"
  let ?Y = "map (sync_item t)
      (filter (\<lambda>file. endswith (snd file) ''.json'') (files_under_subdirs ds subdirs))"
  have files: "store_files w b t ?root nondirs = upload_all w b ?X"
    using "1.prems" by (intro store_files_flat) simp_all
  obtain out w' where u: "upload_all w b ?X = (out, w')"
    by (cases "upload_all w b ?X")
  with upload_all_frame [of w b ?X] "1.prems" have "startswith (getcwd w') [sep]"
    by (auto dest: frame_cwd)
  with "1.IH" [of w'] "1.prems"
  have "store_walk w' b t (os_walk_subdirs ?root subdirs) = upload_all w' b ?Y"
    by simp
  with files u show ?case
    by (cases out) (simp_all add: bundles_under_def upload_all_append)
next
  case (2 ds)
  show ?case by simp
next
  case (3 ds name d subdirs)
  let ?root = "foldl os_path_join t ds"
  let ?X = "map (sync_item t) (bundles_under (ds @ [name]) d)"
  let ?Y = "map (sync_item t)
      (filter (\<lambda>file. endswith (snd file) ''.json'') (files_under_subdirs ds subdirs))"
  have sub: "store_walk w b t (os_walk (os_path_join ?root name) d) = upload_all w b ?X"
    using "3.IH"(1) [of w] "3.prems" by simp
  obtain out w' where u: "upload_all w b ?X = (out, w')"
    by (cases "upload_all w b ?X")
  with upload_all_frame [of w b ?X] "3.prems" have "startswith (getcwd w') [sep]"
    by (auto dest: frame_cwd)
  with "3.IH"(2) [of w'] "3.prems"
  have "store_walk w' b t (os_walk_subdirs ?root subdirs) = upload_all w' b ?Y"
    by simp
  with sub u show ?case
    by (cases out) (simp_all add: bundles_under_def upload_all_append store_walk_append)
qed

lemma store_s3_flat:
  assumes "boto3_clients w [''s3''] = None" "directories w t = Some d" "wf_dir d"
    "startswith (getcwd w) [sep]" "t \<noteq> []"
  shows "store_s3 w b t = upload_all w b (map (sync_item t) (bundles_under [] d))"
  using assms store_walk_flat(1) [of d w t "[]" b] by (simp add: store_s3_def)

lemma upload_to_s3_calls:
  "calls (snd (upload_to_s3 w p b k))
     = calls w @ HeadObject b k
         # (if \<exists>t. head_object w b k = Some (ClientError ''404'' t)
            then [UploadFile p b k ''application/json''] else [])"
  by (auto simp: upload_to_s3_def upload_file_def Let_def
           split: option.splits exn.splits sum.splits)

lemma head_checks_append [simp]: "head_checks (xs @ ys) = head_checks xs @ head_checks ys"
  by (simp add: head_checks_def)

lemma upload_to_s3_head_checks:
  "head_checks (calls (snd (upload_to_s3 w p b k))) = head_checks (calls w) @ [HeadObject b k]"
  by (simp add: upload_to_s3_calls) (simp add: head_checks_def)

lemma upload_all_head_checks:
  "fst (upload_all w b items) = Returned \<Longrightarrow>
   head_checks (calls (snd (upload_all w b items)))
     = head_checks (calls w) @ map (\<lambda>item. HeadObject b (snd item)) items"
proof (induction items arbitrary: w)
  case Nil
  show ?case by simp
next
  case (Cons item items)
  obtain p k where item: "item = (p, k)" by (cases item)
  obtain out w' where u: "upload_to_s3 w p b k = (out, w')" by (cases "upload_to_s3 w p b k")
  with upload_to_s3_head_checks [of w p b k]
  have h: "head_checks (calls w') = head_checks (calls w) @ [HeadObject b k]" by simp
  show ?case
  proof (cases out)
    case Returned
    with Cons.prems item u have "fst (upload_all w' b items) = Returned" by simp
    from Cons.IH [OF this] Returned item u h show ?thesis by simp
  qed (use Cons.prems item u in simp_all)
qed

lemma upload_to_s3_present:
  "head_object_fault w b k = None \<Longrightarrow> (b, k) \<in> set (s3_objects w) \<Longrightarrow>
   upload_to_s3 w p b k = (Returned, print_line (skipped_line b k) (called (HeadObject b k) w))"
  by (simp add: upload_to_s3_def head_object_def skipped_line_def)

lemma upload_to_s3_absent:
  "head_object_fault w b k = None \<Longrightarrow> (b, k) \<notin> set (s3_objects w) \<Longrightarrow>
   upload_file_fault w p b k = None \<Longrightarrow>
   fst (upload_to_s3 w p b k) = Returned
   \<and> s3_objects (snd (upload_to_s3 w p b k)) = (b, k) # s3_objects w"
  by (simp add: upload_to_s3_def head_object_def upload_file_def Let_def)

lemma upload_all_skips:
  "\<forall>item \<in> set items. head_object_fault w b (snd item) = None \<and> (b, snd item) \<in> set (s3_objects w) \<Longrightarrow>
   upload_all w b items =
     (Returned, w\<lparr>calls := calls w @ map (\<lambda>item. HeadObject b (snd item)) items,
                  stdout := stdout w @ map (\<lambda>item. skipped_line b (snd item)) items\<rparr>)"
proof (induction items arbitrary: w)
  case Nil
  show ?case by simp
next
  case (Cons item items)
  obtain p k where item: "item = (p, k)" by (cases item)
  let ?w' = "print_line (skipped_line b k) (called (HeadObject b k) w)"
  from Cons.prems item have u: "upload_to_s3 w p b k = (Returned, ?w')"
    by (simp add: upload_to_s3_present)
  have "\<forall>item \<in> set items. head_object_fault ?w' b (snd item) = None
      \<and> (b, snd item) \<in> set (s3_objects ?w')"
    using Cons.prems by simp
  from Cons.IH [OF this] item u show ?case
    by (simp add: print_line_def called_def)
qed

lemma upload_all_succeeds:
  "\<forall>item \<in> set items. head_object_fault w b (snd item) = None
      \<and> ((b, snd item) \<in> set (s3_objects w) \<or> upload_file_fault w (fst item) b (snd item) = None) \<Longrightarrow>
   fst (upload_all w b items) = Returned
   \<and> set (s3_objects w) \<subseteq> set (s3_objects (snd (upload_all w b items)))
   \<and> (\<forall>item \<in> set items. (b, snd item) \<in> set (s3_objects (snd (upload_all w b items))))"
proof (induction items arbitrary: w)
  case Nil
  show ?case by simp
next
  case (Cons item items)
  obtain p k where item: "item = (p, k)" by (cases item)
  obtain out w' where u: "upload_to_s3 w p b k = (out, w')" by (cases "upload_to_s3 w p b k")
  have step: "out = Returned \<and> (b, k) \<in> set (s3_objects w')
      \<and> set (s3_objects w) \<subseteq> set (s3_objects w')"
  proof (cases "(b, k) \<in> set (s3_objects w)")
    case True
    with Cons.prems item u show ?thesis by (auto simp: upload_to_s3_present)
  next
    case False
    with Cons.prems item u upload_to_s3_absent [of w b k p] show ?thesis by auto
  qed
  from u upload_to_s3_frame [of w p b k] have f: "frame w w'" by simp
  have "\<forall>item \<in> set items. head_object_fault w' b (snd item) = None
      \<and> ((b, snd item) \<in> set (s3_objects w') \<or> upload_file_fault w' (fst item) b (snd item) = None)"
    using Cons.prems step f by (auto simp: frame_def)
  from Cons.IH [OF this] item u step show ?case by auto
qed

lemma main_store:
  "isdir w path \<Longrightarrow> main (store_argv b path) w = store_s3 w b path"
  by (simp add: main_def store_argv_def)

lemmas path_defs =
  os_path_relpath_def path_list_def abspath_def normpath_def normpath_step_def
  initial_slashes_def os_path_join_def startswith_def endswith_def sep_def backslash_def
  replace_backslash_def

text \<open>
  C5, as the code has it, for a top directory that is not the empty string, an absolute
  working directory, names that the file system allows, and the S3 client built.
  \<open>store_s3\<close> is \<open>upload_to_s3\<close> run over the files whose name ends in \<open>.json\<close>, in
  the order of the walk, each with the key made of its relative path by replacing every
  backslash with a slash; the run stops where an exception leaves \<open>upload_to_s3\<close>. So
  in a run that returns, the existence checks made are those of exactly these keys. A
  relative path without a backslash is its own key.
\<close>

theorem store_s3_keys:
  assumes "boto3_clients w [''s3''] = None" "directories w t = Some d" "wf_dir d"
    "startswith (getcwd w) [sep]" "t \<noteq> []"
  shows "store_s3 w b t
       = upload_all w b (map (sync_item t)
           (filter (\<lambda>file. endswith (snd file) ''.json'') (files_under [] d)))
     \<and> (fst (store_s3 w b t) = Returned \<longrightarrow>
          head_checks (calls (snd (store_s3 w b t)))
            = head_checks (calls w)
              @ map (\<lambda>file. HeadObject b (replace_backslash (relative_path file)))
                  (filter (\<lambda>file. endswith (snd file) ''.json'') (files_under [] d)))
     \<and> (\<forall>file \<in> set (files_under [] d).
          backslash \<notin> set (relative_path file) \<longrightarrow> snd (sync_item t file) = relative_path file)"
proof (intro conjI impI ballI)
  show flat: "store_s3 w b t
       = upload_all w b (map (sync_item t)
           (filter (\<lambda>file. endswith (snd file) ''.json'') (files_under [] d)))"
    using store_s3_flat [OF assms] by (simp add: bundles_under_def)
  assume "fst (store_s3 w b t) = Returned"
  with flat upload_all_head_checks [of w b "map (sync_item t)
           (filter (\<lambda>file. endswith (snd file) ''.json'') (files_under [] d))"]
  show "head_checks (calls (snd (store_s3 w b t)))
            = head_checks (calls w)
              @ map (\<lambda>file. HeadObject b (replace_backslash (relative_path file)))
                  (filter (\<lambda>file. endswith (snd file) ''.json'') (files_under [] d))"
    by (simp add: sync_item_def o_def)
next
  fix x
  assume "backslash \<notin> set (relative_path x)"
  then have "map (\<lambda>c. if c = backslash then sep else c) (relative_path x) = relative_path x"
    by (intro map_idI) auto
  then show "snd (sync_item t x) = relative_path x"
    by (simp add: sync_item_def replace_backslash_def)
qed

text \<open>
  The witness of C5: a directory with \<open>a.json\<close>, \<open>c.txt\<close> and \<open>sub/b.json\<close>.
\<close>

theorem store_s3_keys_witness:
  "fst (store_s3 nested_bundles ''bk'' ''data'') = Returned
   \<and> head_checks (calls (snd (store_s3 nested_bundles ''bk'' ''data'')))
       = [HeadObject ''bk'' ''a.json'', HeadObject ''bk'' ''sub/b.json'']
   \<and> snd (sync_item ''data'' ([''sub''], ''b.json'')) = ''sub/b.json''"
proof -
  have a: "boto3_clients nested_bundles [''s3''] = None"
    by (simp add: nested_bundles_def calm_def boto3_clients_def)
  have b: "directories nested_bundles ''data''
      = Some (Dir [''a.json'', ''c.txt''] [(''sub'', Dir [''b.json''] [])])"
    by (simp add: nested_bundles_def)
  have c: "wf_dir (Dir [''a.json'', ''c.txt''] [(''sub'', Dir [''b.json''] [])])"
    by (simp add: name_ok_def sep_def)
  have d: "startswith (getcwd nested_bundles) [sep]"
    by (simp add: nested_bundles_def calm_def startswith_def sep_def)
  have e: "calls nested_bundles = []"
    by (simp add: nested_bundles_def calm_def)
  have f: "fst (store_s3 nested_bundles ''bk'' ''data'') = Returned"
    by (simp add: store_s3_def boto3_clients_def path_defs upload_to_s3_def head_object_def
          upload_file_def nested_bundles_def calm_def Let_def print_line_def called_def)
  note k = store_s3_keys [OF a b c d, of "''bk''"]
  let ?D = "Dir [''a.json'', ''c.txt''] [(''sub'', Dir [''b.json''] [])]"
  from k f have "head_checks (calls (snd (store_s3 nested_bundles ''bk'' ''data'')))
      = head_checks (calls nested_bundles)
        @ map (\<lambda>file. HeadObject ''bk'' (replace_backslash (relative_path file)))
            (filter (\<lambda>file. endswith (snd file) ''.json'') (files_under [] ?D))"
    by blast
  then have h: "head_checks (calls (snd (store_s3 nested_bundles ''bk'' ''data'')))
      = [HeadObject ''bk'' ''a.json'', HeadObject ''bk'' ''sub/b.json'']"
    using e
    by (simp add: relative_path_def replace_backslash_def endswith_def sep_def backslash_def
          head_checks_def)
  have "([''sub''], ''b.json'') \<in> set (files_under [] ?D)"
    "backslash \<notin> set (relative_path ([''sub''], ''b.json''))"
    by (simp_all add: relative_path_def sep_def backslash_def)
  with k have "snd (sync_item ''data'' ([''sub''], ''b.json'')) = relative_path ([''sub''], ''b.json'')"
    by blast
  then have s: "snd (sync_item ''data'' ([''sub''], ''b.json'')) = ''sub/b.json''"
    by (simp add: relative_path_def sep_def)
  from f h s show ?thesis by simp
qed

text \<open>
  C5 as it is stated fails on a POSIX file system, where a backslash is an ordinary
  character of a name: the file named \<open>a\b.json\<close>, directly under the top directory,
  has the relative path \<open>a\b.json\<close> (no separator in it) and is uploaded under the key
  \<open>a/b.json\<close>.
\<close>

theorem store_s3_keys_counterexample:
  "calls (snd (main (store_argv ''bk'' ''data'') backslash_name))
     = [HeadObject ''bk'' ''a/b.json'',
        UploadFile (''data/a'' @ backslash # ''b.json'') ''bk'' ''a/b.json'' ''application/json'']
   \<and> relative_path ([], ''a'' @ backslash # ''b.json'') = ''a'' @ backslash # ''b.json''
   \<and> ''a'' @ backslash # ''b.json'' \<noteq> ''a/b.json''"
  by (simp add: main_def store_argv_def isdir_def store_s3_def path_defs upload_to_s3_def
        head_object_def upload_file_def backslash_name_def calm_def boto3_clients_def Let_def
        print_line_def called_def relative_path_def)

section \<open>store-s3: running it twice, and running it without credentials\<close>

lemma first_client_fault_frame:
  "new_client w' = new_client w \<Longrightarrow> first_client_fault w' names = first_client_fault w names"
  by (induction names) (simp_all split: option.split)

lemma boto3_clients_frame:
  "frame w w' \<Longrightarrow> boto3_clients w' names = boto3_clients w names"
  using first_client_fault_frame [of w' w names]
  by (simp add: boto3_clients_def frame_def split: option.split)

lemma two_bundles_items:
  "map (sync_item ''data'') (bundles_under [] (Dir [''a.json'', ''b.json'', ''c.txt''] []))
     = [(''data/a.json'', ''a.json''), (''data/b.json'', ''b.json'')]"
  by (simp add: bundles_under_def sync_item_def relative_path_def os_path_join_def
        startswith_def endswith_def sep_def backslash_def replace_backslash_def)

lemma two_bundles_flat:
  assumes "boto3_clients w [''s3''] = None"
    "directories w ''data'' = Some (Dir [''a.json'', ''b.json'', ''c.txt''] [])"
    "getcwd w = ''/home/user''"
  shows "store_s3 w ''bk'' ''data''
       = upload_all w ''bk'' [(''data/a.json'', ''a.json''), (''data/b.json'', ''b.json'')]"
proof -
  have "wf_dir (Dir [''a.json'', ''b.json'', ''c.txt''] [])"
    by (simp add: name_ok_def sep_def)
  moreover have "startswith (getcwd w) [sep]"
    using assms(3) by (simp add: startswith_def sep_def)
  ultimately show ?thesis
    using store_s3_flat [OF assms(1,2), of "''bk''"] two_bundles_items by simp
qed

lemma two_bundles_fields:
  "boto3_clients two_bundles [''s3''] = None"
  "directories two_bundles ''data'' = Some (Dir [''a.json'', ''b.json'', ''c.txt''] [])"
  "getcwd two_bundles = ''/home/user''"
  "head_object_fault two_bundles = (\<lambda>bucket key. None)"
  "upload_file_fault two_bundles = (\<lambda>file_path bucket key. None)"
  "s3_objects two_bundles = []" "calls two_bundles = []" "stdout two_bundles = []"
  by (simp_all add: two_bundles_def calm_def boto3_clients_def)

lemma missing_bucket_fields:
  "boto3_clients missing_bucket [''s3''] = None"
  "directories missing_bucket ''data'' = Some (Dir [''a.json'', ''b.json'', ''c.txt''] [])"
  "getcwd missing_bucket = ''/home/user''"
  "head_object_fault missing_bucket = (\<lambda>bucket key. None)"
  "upload_file_fault missing_bucket
     = (\<lambda>file_path bucket key. Some (OtherException ''Failed to upload: An error occurred (NoSuchBucket) when calling the PutObject operation''))"
  "s3_objects missing_bucket = []" "calls missing_bucket = []" "stdout missing_bucket = []"
  by (simp_all add: missing_bucket_def two_bundles_def calm_def boto3_clients_def)

lemma signed_out_fields:
  "boto3_clients signed_out [''s3''] = None"
  "directories signed_out ''data'' = Some (Dir [''a.json'', ''b.json'', ''c.txt''] [])"
  "getcwd signed_out = ''/home/user''"
  "head_object_fault signed_out = (\<lambda>bucket key. Some no_credentials)"
  "calls signed_out = []"
  by (simp_all add: signed_out_def two_bundles_def calm_def boto3_clients_def)

lemma upload_to_s3_returns:
  "\<forall>e. head_object_fault w b k = Some e \<longrightarrow> (\<exists>code t. e = ClientError code t) \<Longrightarrow>
   fst (upload_to_s3 w p b k) = Returned"
  by (auto simp: upload_to_s3_def head_object_def Let_def
           split: option.split exn.split sum.split)

lemma upload_all_returns:
  "\<forall>item \<in> set items. \<forall>e. head_object_fault w b (snd item) = Some e
      \<longrightarrow> (\<exists>code t. e = ClientError code t) \<Longrightarrow>
   fst (upload_all w b items) = Returned"
proof (induction items arbitrary: w)
  case Nil
  show ?case by simp
next
  case (Cons item items)
  obtain p k where item: "item = (p, k)" by (cases item)
  obtain out w' where u: "upload_to_s3 w p b k = (out, w')" by (cases "upload_to_s3 w p b k")
  with Cons.prems item upload_to_s3_returns [of w b k p] have out: "out = Returned" by simp
  from u upload_to_s3_frame [of w p b k] have "head_object_fault w' = head_object_fault w"
    by (simp add: frame_def)
  with Cons.prems have "\<forall>item \<in> set items. \<forall>e. head_object_fault w' b (snd item) = Some e
      \<longrightarrow> (\<exists>code t. e = ClientError code t)"
    by simp
  from Cons.IH [OF this] item u out show ?case by simp
qed

text \<open>
  C2, as the code has it, under the conditions of C5. If for every bundle the existence
  check meets no fault, and the object is stored already or its upload meets no fault,
  then the first run returns, and the second run, started in the world the first one
  left, makes one existence check per bundle and no other call, prints for each bundle
  that it is skipped, changes nothing else, and returns.
\<close>

theorem store_s3_second_run_skips:
  assumes "boto3_clients w [''s3''] = None" "directories w t = Some d" "wf_dir d"
    "startswith (getcwd w) [sep]" "t \<noteq> []"
    and "\<forall>item \<in> set (map (sync_item t) (bundles_under [] d)).
           head_object_fault w b (snd item) = None
           \<and> ((b, snd item) \<in> set (s3_objects w)
                \<or> upload_file_fault w (fst item) b (snd item) = None)"
  shows "fst (store_s3 w b t) = Returned
     \<and> store_s3 (snd (store_s3 w b t)) b t
       = (Returned,
          (snd (store_s3 w b t))
            \<lparr>calls := calls (snd (store_s3 w b t))
                 @ map (\<lambda>item. HeadObject b (snd item)) (map (sync_item t) (bundles_under [] d)),
             stdout := stdout (snd (store_s3 w b t))
                 @ map (\<lambda>item. skipped_line b (snd item))
                     (map (sync_item t) (bundles_under [] d))\<rparr>)"
proof -
  let ?items = "map (sync_item t) (bundles_under [] d)"
  let ?w1 = "snd (store_s3 w b t)"
  have flat: "store_s3 w b t = upload_all w b ?items"
    using assms(1-5) by (rule store_s3_flat)
  have first: "fst (store_s3 w b t) = Returned"
    and stored: "\<forall>item \<in> set ?items. (b, snd item) \<in> set (s3_objects ?w1)"
    using upload_all_succeeds [OF assms(6)] flat by simp_all
  have f: "frame w ?w1"
    using upload_all_frame [of w b ?items] flat by simp
  then have "boto3_clients ?w1 [''s3''] = None" "directories ?w1 t = Some d"
    "startswith (getcwd ?w1) [sep]"
    using assms(1,2,4) boto3_clients_frame [of w ?w1 "[''s3'']"] by (simp_all add: frame_def)
  then have flat1: "store_s3 ?w1 b t = upload_all ?w1 b ?items"
    using assms(3,5) by (intro store_s3_flat)
  have "\<forall>item \<in> set ?items. head_object_fault ?w1 b (snd item) = None
      \<and> (b, snd item) \<in> set (s3_objects ?w1)"
    using assms(6) stored f by (simp add: frame_def)
  from upload_all_skips [OF this] flat1 first show ?thesis by simp
qed

text \<open>The witness of C2: the directory with \<open>a.json\<close>, \<open>b.json\<close> and \<open>c.txt\<close>, and
  an empty bucket.\<close>

theorem store_s3_second_run_skips_witness:
  "store_s3 (snd (store_s3 two_bundles ''bk'' ''data'')) ''bk'' ''data''
     = (Returned,
        (snd (store_s3 two_bundles ''bk'' ''data''))
          \<lparr>calls := calls (snd (store_s3 two_bundles ''bk'' ''data''))
               @ [HeadObject ''bk'' ''a.json'', HeadObject ''bk'' ''b.json''],
           stdout := stdout (snd (store_s3 two_bundles ''bk'' ''data''))
               @ [''File already exists in s3://bk/a.json, skipping upload.'',
                  ''File already exists in s3://bk/b.json, skipping upload.'']\<rparr>)"
proof -
  let ?D = "Dir [''a.json'', ''b.json'', ''c.txt''] []"
  have c: "wf_dir ?D"
    by (simp add: name_ok_def sep_def)
  have d: "startswith (getcwd two_bundles) [sep]"
    by (simp add: two_bundles_fields startswith_def sep_def)
  have e: "\<forall>item \<in> set (map (sync_item ''data'') (bundles_under [] ?D)).
      head_object_fault two_bundles ''bk'' (snd item) = None
      \<and> ((''bk'', snd item) \<in> set (s3_objects two_bundles)
           \<or> upload_file_fault two_bundles (fst item) ''bk'' (snd item) = None)"
    by (simp add: two_bundles_fields)
  have t: "''data'' \<noteq> []" by simp
  show ?thesis
    using store_s3_second_run_skips [OF two_bundles_fields(1,2) c d t e]
    by (simp add: two_bundles_items skipped_line_def)
qed

text \<open>
  C2 as it is stated fails: when the bucket does not exist, the uploads of the first
  run fail, and the second run, with the directory unchanged, finds both objects missing
  and issues both puts again.
\<close>

theorem store_s3_second_run_counterexample:
  "isdir missing_bucket ''data''
   \<and> calls (snd (main (store_argv ''bk'' ''data'')
                 (snd (main (store_argv ''bk'' ''data'') missing_bucket))))
     = [HeadObject ''bk'' ''a.json'',
        UploadFile ''data/a.json'' ''bk'' ''a.json'' ''application/json'',
        HeadObject ''bk'' ''b.json'',
        UploadFile ''data/b.json'' ''bk'' ''b.json'' ''application/json'',
        HeadObject ''bk'' ''a.json'',
        UploadFile ''data/a.json'' ''bk'' ''a.json'' ''application/json'',
        HeadObject ''bk'' ''b.json'',
        UploadFile ''data/b.json'' ''bk'' ''b.json'' ''application/json'']"
proof -
  let ?items = "[(''data/a.json'', ''a.json''), (''data/b.json'', ''b.json'')]"
  let ?w1 = "snd (store_s3 missing_bucket ''bk'' ''data'')"
  have d: "isdir missing_bucket ''data''"
    by (simp add: isdir_def missing_bucket_fields)
  have first: "store_s3 missing_bucket ''bk'' ''data'' = upload_all missing_bucket ''bk'' ?items"
    by (intro two_bundles_flat missing_bucket_fields)
  have f: "frame missing_bucket ?w1"
    using upload_all_frame [of missing_bucket "''bk''" ?items] first by simp
  have c1: "calls ?w1
      = [HeadObject ''bk'' ''a.json'',
         UploadFile ''data/a.json'' ''bk'' ''a.json'' ''application/json'',
         HeadObject ''bk'' ''b.json'',
         UploadFile ''data/b.json'' ''bk'' ''b.json'' ''application/json'']"
    and o1: "s3_objects ?w1 = []"
    by (simp_all add: first upload_to_s3_def head_object_def upload_file_def Let_def
          missing_bucket_fields)
  have second: "store_s3 ?w1 ''bk'' ''data'' = upload_all ?w1 ''bk'' ?items"
    using f missing_bucket_fields(1-3) boto3_clients_frame [of missing_bucket ?w1 "[''s3'']"]
    by (intro two_bundles_flat) (simp_all add: frame_def)
  have faults: "head_object_fault ?w1 = (\<lambda>bucket key. None)"
    "upload_file_fault ?w1
       = (\<lambda>file_path bucket key. Some (OtherException ''Failed to upload: An error occurred (NoSuchBucket) when calling the PutObject operation''))"
    using f by (simp_all add: frame_def missing_bucket_fields)
  have "calls (snd (store_s3 ?w1 ''bk'' ''data''))
      = calls ?w1 @ [HeadObject ''bk'' ''a.json'',
         UploadFile ''data/a.json'' ''bk'' ''a.json'' ''application/json'',
         HeadObject ''bk'' ''b.json'',
         UploadFile ''data/b.json'' ''bk'' ''b.json'' ''application/json'']"
    by (simp add: second upload_to_s3_def head_object_def upload_file_def Let_def faults o1)
  moreover have "isdir ?w1 ''data''"
    using f d by (simp add: isdir_def frame_def)
  ultimately show ?thesis
    using d c1 by (simp add: main_store)
qed

text \<open>
  C8 fails on the code. Without credentials the existence check of the first file raises
  \<open>NoCredentialsError\<close>, which \<open>upload_to_s3\<close> catches for the upload but not for the
  existence check: the exception leaves \<open>store_s3\<close> and the command. Nothing is printed
  for \<open>a.json\<close> and \<open>b.json\<close> is never looked at.
\<close>

theorem store_s3_aborts_without_credentials:
  "main (store_argv ''bk'' ''data'') signed_out
     = (Raised no_credentials, signed_out\<lparr>calls := [HeadObject ''bk'' ''a.json'']\<rparr>)"
proof -
  have "isdir signed_out ''data''"
    by (simp add: isdir_def signed_out_fields)
  moreover have "store_s3 signed_out ''bk'' ''data''
      = upload_all signed_out ''bk'' [(''data/a.json'', ''a.json''), (''data/b.json'', ''b.json'')]"
    by (intro two_bundles_flat signed_out_fields)
  ultimately show ?thesis
    by (simp add: main_store upload_to_s3_def head_object_def signed_out_fields
          no_credentials_def called_def)
qed

text \<open>
  The same run, with the guards of the command line spelled out: the arguments are the
  six that \<open>store-s3\<close> expects and the path is a directory; one call is logged and
  nothing is printed.
\<close>

theorem store_s3_aborts_without_credentials_witness:
  "length (store_argv ''bk'' ''data'') = 6
   \<and> isdir signed_out ''data''
   \<and> fst (main (store_argv ''bk'' ''data'') signed_out) = Raised no_credentials
   \<and> calls (snd (main (store_argv ''bk'' ''data'') signed_out)) = [HeadObject ''bk'' ''a.json'']
   \<and> stdout (snd (main (store_argv ''bk'' ''data'') signed_out)) = []"
  using store_s3_aborts_without_credentials
  by (simp add: store_argv_def isdir_def signed_out_fields)
     (simp add: signed_out_def two_bundles_def calm_def)

text \<open>
  C10 fails on the code, for the same reason: the path is a directory, and the command
  ends with status 1.
\<close>

theorem store_s3_exit_status_without_credentials:
  "isdir signed_out ''data''
   \<and> exit_code (fst (main (store_argv ''bk'' ''data'') signed_out)) = 1"
proof -
  have "isdir signed_out ''data''"
    by (simp add: isdir_def signed_out_fields)
  moreover have "store_s3 signed_out ''bk'' ''data''
      = upload_all signed_out ''bk'' [(''data/a.json'', ''a.json''), (''data/b.json'', ''b.json'')]"
    by (intro two_bundles_flat signed_out_fields)
  ultimately show ?thesis
    by (simp add: main_store upload_to_s3_def head_object_def signed_out_fields
          no_credentials_def)
qed

text \<open>
  The same run, with the guards spelled out: six arguments, the flags in their places,
  and an outcome that is an uncaught exception.
\<close>

theorem store_s3_exit_status_without_credentials_witness:
  "length (store_argv ''bk'' ''data'') = 6
   \<and> store_argv ''bk'' ''data'' ! 1 = ''store-s3''
   \<and> store_argv ''bk'' ''data'' ! 2 = ''--bucket-name''
   \<and> store_argv ''bk'' ''data'' ! 4 = ''--path''
   \<and> isdir signed_out ''data''
   \<and> exit_code (fst (main (store_argv ''bk'' ''data'') signed_out)) = 1"
  using store_s3_exit_status_without_credentials
  by (simp add: store_argv_def)

end
